theory Spec2Isabelle
  imports Complex_Main
begin

section \<open>Numbers\<close>

text \<open>
  The looper computes with C++ \<open>double\<close> and \<open>float\<close> values and with \<open>int\<close> counters.
  Finite floating-point values are modelled as exact reals (no rounding). \<open>int\<close>
  arithmetic is modelled exactly (the sample counts and indices computed from a loaded
  clip stay far below \<open>2^31\<close>), except for the sum in the bounds check of \<open>processBlock\<close>,
  which is the check that has to keep the caller's arguments in range: there the 32-bit
  wrap-around is written out.
  Where a division by zero is reached from finite arguments (a tempo of zero in the
  session, a beat interval of zero in the autocorrelation stage), the model writes out what
  IEEE arithmetic does: the quotient is an explicit infinite or NaN value, and a loop that
  never leaves it is a call that does not return.
\<close>

datatype xdouble = Num real | PosInf | NegInf | NotANumber

text \<open>\<open>a / b\<close> on finite doubles.\<close>

definition ddiv :: "real \<Rightarrow> real \<Rightarrow> xdouble" where
  "ddiv a b =
     (if b \<noteq> 0 then Num (a / b)
      else if a > 0 then PosInf
      else if a < 0 then NegInf
      else NotANumber)"

text \<open>\<open>r * x\<close> for a finite \<open>r\<close>.\<close>

fun dtimes :: "real \<Rightarrow> xdouble \<Rightarrow> xdouble" where
  "dtimes r (Num x) = Num (r * x)"
| "dtimes r PosInf = (if r > 0 then PosInf else if r < 0 then NegInf else NotANumber)"
| "dtimes r NegInf = (if r > 0 then NegInf else if r < 0 then PosInf else NotANumber)"
| "dtimes r NotANumber = NotANumber"

text \<open>
  \<open>juce::jlimit (lo, hi, v)\<close> is \<open>v < lo ? lo : (hi < v ? hi : v)\<close>; every comparison with
  a NaN is false, so a NaN passes through.
\<close>

definition jlimit :: "real \<Rightarrow> real \<Rightarrow> real \<Rightarrow> real" where
  "jlimit lo hi v = (if v < lo then lo else if hi < v then hi else v)"

fun jlimitX :: "real \<Rightarrow> real \<Rightarrow> xdouble \<Rightarrow> xdouble" where
  "jlimitX lo hi (Num v) = Num (jlimit lo hi v)"
| "jlimitX lo hi PosInf = Num hi"
| "jlimitX lo hi NegInf = Num lo"
| "jlimitX lo hi NotANumber = NotANumber"

text \<open>\<open>t >= x\<close> for a finite \<open>t\<close>.\<close>

fun geX :: "real \<Rightarrow> xdouble \<Rightarrow> bool" where
  "geX t (Num x) = (t \<ge> x)"
| "geX t PosInf = False"
| "geX t NegInf = True"
| "geX t NotANumber = False"

text \<open>
  The result of an \<open>int\<close> addition whose exact value is \<open>x\<close>. Signed overflow is undefined
  in C++; on the two's-complement targets of the program the sum wraps around.
\<close>

definition wrap32 :: "int \<Rightarrow> int" where
  "wrap32 x = (x + 2147483648) mod 4294967296 - 2147483648"

text \<open>The conversion \<open>(int) x\<close> of a double truncates towards zero.\<close>

definition cast_int :: "real \<Rightarrow> int" where
  "cast_int x = (if 0 \<le> x then \<lfloor>x\<rfloor> else \<lceil>x\<rceil>)"


section \<open>Sample buffers\<close>

text \<open>
  A \<open>juce::AudioBuffer<float>\<close>: a channel count, a frame count and one sample list per
  channel. \<open>getNumSamples\<close> is kept beside the channel data because a buffer may have
  frames and no channel. In a buffer of the program every channel list has \<open>numFrames\<close>
  samples; no result below depends on it.
\<close>

record AudioBuffer =
  channelData :: "real list list"
  numFrames :: nat

definition getNumChannels :: "AudioBuffer \<Rightarrow> nat" where
  "getNumChannels b = length (channelData b)"

definition getNumSamples :: "AudioBuffer \<Rightarrow> nat" where
  "getNumSamples b = numFrames b"

definition getSample :: "AudioBuffer \<Rightarrow> nat \<Rightarrow> nat \<Rightarrow> real" where
  "getSample b ch i = channelData b ! ch ! i"

text \<open>Digital silence: every sample of every channel is zero.\<close>

definition silent :: "AudioBuffer \<Rightarrow> bool" where
  "silent b = (\<forall>ch < getNumChannels b. \<forall>i < getNumSamples b. getSample b ch i = 0)"

text \<open>\<open>dest[start + k] += xs[k]\<close> for every \<open>k\<close>, inside one channel.\<close>

definition addAt :: "real list \<Rightarrow> int \<Rightarrow> real list \<Rightarrow> real list" where
  "addAt dest start xs =
     map (\<lambda>i. if start \<le> int i \<and> int i < start + int (length xs)
               then dest ! i + xs ! nat (int i - start) else dest ! i)
         [0..<length dest]"

definition addSamples :: "AudioBuffer \<Rightarrow> nat \<Rightarrow> int \<Rightarrow> real list \<Rightarrow> AudioBuffer" where
  "addSamples b ch start xs =
     (if ch < length (channelData b)
      then b\<lparr>channelData := (channelData b)[ch := addAt (channelData b ! ch) start xs]\<rparr>
      else b)"

text \<open>The frames \<open>[srcStart, srcStart + num)\<close> of one source channel.\<close>

definition sourceSlice :: "AudioBuffer \<Rightarrow> nat \<Rightarrow> int \<Rightarrow> int \<Rightarrow> real list" where
  "sourceSlice src ch srcStart num = take (nat num) (drop (nat srcStart) (channelData src ! ch))"

text \<open>\<open>dest.addFrom (destCh, destStart, src, srcCh, srcStart, num, gain)\<close>.\<close>

definition addFrom ::
  "AudioBuffer \<Rightarrow> nat \<Rightarrow> int \<Rightarrow> AudioBuffer \<Rightarrow> nat \<Rightarrow> int \<Rightarrow> int \<Rightarrow> real \<Rightarrow> AudioBuffer" where
  "addFrom dest destCh destStart src srcCh srcStart num gain =
     addSamples dest destCh destStart (map (\<lambda>x. x * gain) (sourceSlice src srcCh srcStart num))"

text \<open>\<open>buffer.clear (start, num)\<close>: zero the frames \<open>[start, start + num)\<close> of every channel.\<close>

definition clearRegion :: "AudioBuffer \<Rightarrow> int \<Rightarrow> int \<Rightarrow> AudioBuffer" where
  "clearRegion b start num =
     b\<lparr>channelData :=
         map (\<lambda>c. map (\<lambda>i. if start \<le> int i \<and> int i < start + num then 0 else c ! i)
                       [0..<length c])
             (channelData b)\<rparr>"


section \<open>The time-stretch primitive\<close>

text \<open>
  \<open>soundtouch::SoundTouch\<close> is an external library. Its state is a type parameter and its
  operations are a record of functions, so that every result below holds for any behaviour
  of the primitive. \<open>receiveSamples\<close> yields the interleaved samples it wrote to the
  receiving buffer; the number of frames it reports is their count divided by the channels.
\<close>

record 'st SoundTouchOps =
  st_setSampleRate :: "nat \<Rightarrow> 'st \<Rightarrow> 'st"
  st_setChannels :: "nat \<Rightarrow> 'st \<Rightarrow> 'st"
  st_setTempo :: "real \<Rightarrow> 'st \<Rightarrow> 'st"
  st_setPitch :: "real \<Rightarrow> 'st \<Rightarrow> 'st"
  st_clear :: "'st \<Rightarrow> 'st"
  st_putSamples :: "real list \<Rightarrow> nat \<Rightarrow> 'st \<Rightarrow> 'st"
  st_receiveSamples :: "nat \<Rightarrow> 'st \<Rightarrow> real list \<times> 'st"


section \<open>Tracks\<close>

text \<open>
  The fields of \<open>AudioTrack\<close> that the engine computes with. The format manager, the lock,
  the file name and the peak envelope drawn by the waveform view are left out.
\<close>

record 'st AudioTrack =
  audioBuffer :: AudioBuffer
  soundTouch :: 'st
  sampleRate :: real
  currentPosition :: real
  stretchRatio :: real
  detectedBPM :: real
  masterBPM :: real
  muted :: bool
  solo :: bool
  looping :: bool
  volume :: real
  hasCustomLoopRegion :: bool
  loopStartTime :: real
  loopEndTime :: real

text \<open>The constructor \<open>AudioTrack::AudioTrack()\<close>, around a fresh primitive.\<close>

definition newAudioTrack :: "'st \<Rightarrow> 'st AudioTrack" where
  "newAudioTrack st =
     \<lparr> audioBuffer = \<lparr>channelData = [], numFrames = 0\<rparr>,
       soundTouch = st,
       sampleRate = 44100,
       currentPosition = 0,
       stretchRatio = 1,
       detectedBPM = 0,
       masterBPM = 120,
       muted = False,
       solo = False,
       looping = True,
       volume = 1,
       hasCustomLoopRegion = False,
       loopStartTime = 0,
       loopEndTime = 0 \<rparr>"

definition isLoaded :: "'st AudioTrack \<Rightarrow> bool" where
  "isLoaded t = (getNumSamples (audioBuffer t) > 0)"

definition getDurationInSeconds :: "'st AudioTrack \<Rightarrow> real" where
  "getDurationInSeconds t =
     (if getNumSamples (audioBuffer t) > 0 \<and> sampleRate t > 0
      then real (getNumSamples (audioBuffer t)) / sampleRate t
      else 0)"

subsection \<open>Stretch ratio\<close>

text \<open>
  \<open>std::abs (newRatio - stretchRatio) > 0.001\<close> is false when \<open>newRatio\<close> is a NaN, so the
  ratio is kept then.
\<close>

definition setStretchRatio :: "xdouble \<Rightarrow> 'st AudioTrack \<Rightarrow> 'st AudioTrack" where
  "setStretchRatio ratio t =
     (case jlimitX 0.25 4.0 ratio of
        Num newRatio \<Rightarrow>
          if \<bar>newRatio - stretchRatio t\<bar> > 0.001 then t\<lparr>stretchRatio := newRatio\<rparr> else t
      | _ \<Rightarrow> t)"

definition scaleStretchRatio :: "xdouble \<Rightarrow> 'st AudioTrack \<Rightarrow> 'st AudioTrack" where
  "scaleStretchRatio scaleFactor t =
     (case jlimitX 0.25 4.0 (dtimes (stretchRatio t) scaleFactor) of
        Num newRatio \<Rightarrow>
          if \<bar>newRatio - stretchRatio t\<bar> > 0.001 then t\<lparr>stretchRatio := newRatio\<rparr> else t
      | _ \<Rightarrow> t)"

definition setMasterBPM :: "real \<Rightarrow> 'st AudioTrack \<Rightarrow> 'st AudioTrack" where
  "setMasterBPM newMasterBPM t = t\<lparr>masterBPM := newMasterBPM\<rparr>"

definition autoSyncToMaster :: "'st AudioTrack \<Rightarrow> 'st AudioTrack" where
  "autoSyncToMaster t =
     (if detectedBPM t > 0 \<and> masterBPM t > 0
      then setStretchRatio (Num (detectedBPM t / masterBPM t)) t
      else t)"

text \<open>The interval the ratio is clamped to.\<close>

definition inRange :: "real \<Rightarrow> bool" where
  "inRange r = (1 / 4 \<le> r \<and> r \<le> 4)"

subsection \<open>Loop region\<close>

definition setLoopRegion :: "real \<Rightarrow> real \<Rightarrow> 'st AudioTrack \<Rightarrow> 'st AudioTrack" where
  "setLoopRegion startTime endTime t =
     (if startTime \<ge> 0 \<and> endTime > startTime \<and> endTime \<le> getDurationInSeconds t
      then (let t1 = t\<lparr>loopStartTime := startTime, loopEndTime := endTime,
                        hasCustomLoopRegion := True\<rparr>
            in if currentPosition t1 < loopStartTime t1 \<or> currentPosition t1 > loopEndTime t1
               then t1\<lparr>currentPosition := loopStartTime t1\<rparr>
               else t1)
      else t)"

definition clearLoopRegion :: "'st AudioTrack \<Rightarrow> 'st AudioTrack" where
  "clearLoopRegion t =
     (let t1 = t\<lparr>hasCustomLoopRegion := False, loopStartTime := 0, loopEndTime := 0\<rparr>
      in if currentPosition t1 > getDurationInSeconds t1 then t1\<lparr>currentPosition := 0\<rparr> else t1)"


section \<open>Tempo estimation\<close>

text \<open>
  The estimators are member functions that read \<open>audioBuffer\<close> and \<open>sampleRate\<close>; they
  take the track. Frame size 1024, hop 512, so a spectrum has 512 bins.
\<close>

subsection \<open>Onset strength\<close>

text \<open>The inner loops of \<open>calculateOnsetStrength\<close>: one magnitude per bin, then the flux.\<close>

definition currentSpectrumAt :: "AudioBuffer \<Rightarrow> nat \<Rightarrow> real list" where
  "currentSpectrumAt b pos =
     map (\<lambda>bin.
            (\<Sum>ch\<leftarrow>[0..<getNumChannels b].
               if pos + bin < getNumSamples b then \<bar>getSample b ch (pos + bin)\<bar> else 0)
            / real (getNumChannels b))
         [0..<512]"

definition spectralFlux :: "real list \<Rightarrow> real list \<Rightarrow> real" where
  "spectralFlux currentSpectrum prevSpectrum =
     (\<Sum>bin\<leftarrow>[0..<512].
        let diff = currentSpectrum ! bin - prevSpectrum ! bin in if diff > 0 then diff else 0)"

text \<open>The loop \<open>for (pos = 0; pos < numSamples - frameSize; pos += hopSize)\<close>.\<close>

function onsetStrengthFrom :: "AudioBuffer \<Rightarrow> nat \<Rightarrow> real list \<Rightarrow> real list" where
  "onsetStrengthFrom b pos prevSpectrum =
     (if int pos < int (getNumSamples b) - 1024
      then spectralFlux (currentSpectrumAt b pos) prevSpectrum
             # onsetStrengthFrom b (pos + 512) (currentSpectrumAt b pos)
      else [])"
  by pat_completeness auto
termination
  by (relation "measure (\<lambda>(b, pos, prevSpectrum). getNumSamples b - pos)") auto

definition calculateOnsetStrength :: "'st AudioTrack \<Rightarrow> real list" where
  "calculateOnsetStrength t = onsetStrengthFrom (audioBuffer t) 0 (replicate 512 0)"

subsection \<open>Octave correction\<close>

text \<open>
  \<open>while (bpm < 70.0 && bpm > 0.0) bpm *= 2.0;\<close> and \<open>while (bpm > 180.0) bpm /= 2.0;\<close>
  on a finite value. Both loops end: the number of steps left is bounded by
  \<open>70 / bpm\<close> and by \<open>bpm / 180\<close>.
\<close>

function octaveUp :: "real \<Rightarrow> real" where
  "octaveUp bpm = (if bpm < 70 \<and> bpm > 0 then octaveUp (bpm * 2) else bpm)"
  by pat_completeness auto
termination
proof (relation "measure (\<lambda>bpm. nat \<lceil>70 / bpm\<rceil>)")
  show "wf (measure (\<lambda>bpm. nat \<lceil>70 / bpm\<rceil>))" by simp
next
  fix bpm :: real
  assume a: "bpm < 70 \<and> bpm > 0"
  define x where "x = 70 / bpm"
  have x1: "x > 1" using a by (simp add: x_def)
  have half: "70 / (bpm * 2) = x / 2" by (simp add: x_def)
  have "\<lceil>x / 2\<rceil> < \<lceil>x\<rceil>"
  proof -
    have "\<lceil>x\<rceil> \<ge> 2" using x1 by linarith
    then have "real_of_int \<lceil>x\<rceil> \<ge> 2" by linarith
    moreover have "real_of_int \<lceil>x\<rceil> \<ge> x" by linarith
    ultimately have "x / 2 \<le> real_of_int \<lceil>x\<rceil> - 1" by linarith
    then have "x / 2 \<le> real_of_int (\<lceil>x\<rceil> - 1)" by simp
    then have "\<lceil>x / 2\<rceil> \<le> \<lceil>x\<rceil> - 1" by (rule ceiling_le)
    then show ?thesis by linarith
  qed
  moreover have "\<lceil>x\<rceil> > 0" using x1 by linarith
  ultimately have "nat \<lceil>70 / (bpm * 2)\<rceil> < nat \<lceil>70 / bpm\<rceil>"
    unfolding half x_def [symmetric] by linarith
  then show "(bpm * 2, bpm) \<in> measure (\<lambda>bpm. nat \<lceil>70 / bpm\<rceil>)"
    by simp
qed

function octaveDown :: "real \<Rightarrow> real" where
  "octaveDown bpm = (if bpm > 180 then octaveDown (bpm / 2) else bpm)"
  by pat_completeness auto
termination
proof (relation "measure (\<lambda>bpm. nat \<lceil>bpm / 180\<rceil>)")
  show "wf (measure (\<lambda>bpm. nat \<lceil>bpm / 180\<rceil>))" by simp
next
  fix bpm :: real
  assume a: "bpm > 180"
  define x where "x = bpm / 180"
  have x1: "x > 1" using a by (simp add: x_def)
  have half: "bpm / 2 / 180 = x / 2" by (simp add: x_def)
  have "\<lceil>x / 2\<rceil> < \<lceil>x\<rceil>"
  proof -
    have "\<lceil>x\<rceil> \<ge> 2" using x1 by linarith
    then have "real_of_int \<lceil>x\<rceil> \<ge> 2" by linarith
    moreover have "real_of_int \<lceil>x\<rceil> \<ge> x" by linarith
    ultimately have "x / 2 \<le> real_of_int \<lceil>x\<rceil> - 1" by linarith
    then have "x / 2 \<le> real_of_int (\<lceil>x\<rceil> - 1)" by simp
    then have "\<lceil>x / 2\<rceil> \<le> \<lceil>x\<rceil> - 1" by (rule ceiling_le)
    then show ?thesis by linarith
  qed
  moreover have "\<lceil>x\<rceil> > 0" using x1 by linarith
  ultimately have "nat \<lceil>bpm / 2 / 180\<rceil> < nat \<lceil>bpm / 180\<rceil>"
    unfolding half x_def [symmetric] by linarith
  then show "(bpm / 2, bpm) \<in> measure (\<lambda>bpm. nat \<lceil>bpm / 180\<rceil>)"
    by simp
qed

declare octaveUp.simps [simp del] octaveDown.simps [simp del] onsetStrengthFrom.simps [simp del]

subsection \<open>Onset stage\<close>

text \<open>Consecutive onset intervals inside \<open>(0.1, 2.0)\<close> seconds.\<close>

definition beatIntervals :: "real list \<Rightarrow> real list" where
  "beatIntervals onsetTimes =
     filter (\<lambda>interval. interval > 0.1 \<and> interval < 2.0)
       (map (\<lambda>i. onsetTimes ! i - onsetTimes ! (i - 1)) [1..<length onsetTimes])"

text \<open>
  The histogram loops over the sorted intervals: for each \<open>i\<close>, count the interval and the
  run of later ones within the tolerance of it (the inner loop breaks at the first one that
  is not), and keep the first interval with the largest count.
\<close>

definition clusterCount :: "real list \<Rightarrow> nat \<Rightarrow> nat" where
  "clusterCount intervals i =
     1 + length (takeWhile (\<lambda>x. \<bar>x - intervals ! i\<bar> \<le> 0.05) (drop (i + 1) intervals))"

definition mostCommonInterval :: "real list \<Rightarrow> real" where
  "mostCommonInterval intervals =
     fst (fold (\<lambda>i (bestInterval, maxCount).
                  if clusterCount intervals i > maxCount
                  then (intervals ! i, clusterCount intervals i)
                  else (bestInterval, maxCount))
               [0..<length intervals] (0, 0))"

definition findBestBPMCandidate :: "real list \<Rightarrow> real" where
  "findBestBPMCandidate onsetTimes =
     (if length onsetTimes < 4 then 120
      else if beatIntervals onsetTimes = [] then 120
      else (let bestInterval = mostCommonInterval (sort (beatIntervals onsetTimes))
            in if bestInterval > 0 then octaveDown (octaveUp (60 / bestInterval)) else 120))"

text \<open>\<open>*std::max_element\<close> of a non-empty vector.\<close>

definition max_element :: "real list \<Rightarrow> real" where
  "max_element xs = fold max (tl xs) (hd xs)"

text \<open>The peak picking of \<open>detectBPMFromOnsets\<close>: the times of the local maxima above the threshold.\<close>

definition onsetTimesOf :: "real list \<Rightarrow> real \<Rightarrow> real list" where
  "onsetTimesOf onsetStrength sr =
     (if onsetStrength = [] then []
      else (let adaptiveThreshold = max_element onsetStrength * 0.3
            in map (\<lambda>i. (real i * 512) / sr)
                 (filter (\<lambda>i. onsetStrength ! i > adaptiveThreshold
                              \<and> onsetStrength ! i > onsetStrength ! (i - 1)
                              \<and> onsetStrength ! i > onsetStrength ! (i + 1))
                         [1..<length onsetStrength - 1])))"

definition detectBPMFromOnsets :: "'st AudioTrack \<Rightarrow> real" where
  "detectBPMFromOnsets t =
     (if \<not> isLoaded t \<or> int (getNumSamples (audioBuffer t)) < cast_int (sampleRate t) then 120
      else if length (calculateOnsetStrength t) < 10 then 120
      else if length (onsetTimesOf (calculateOnsetStrength t) (sampleRate t)) < 4 then 120
      else findBestBPMCandidate (onsetTimesOf (calculateOnsetStrength t) (sampleRate t)))"

subsection \<open>Autocorrelation stage\<close>

definition monoSignalOf :: "AudioBuffer \<Rightarrow> real list" where
  "monoSignalOf b =
     map (\<lambda>i. (\<Sum>ch\<leftarrow>[0..<getNumChannels b]. getSample b ch i) / real (getNumChannels b))
         [0..<getNumSamples b]"

text \<open>
  The energy of the 1024 samples from \<open>start\<close>, skipping the indices outside the signal
  (\<open>start\<close> is \<open>pos\<close> for the current frame and \<open>pos - hopSize\<close>, which may be negative, for
  the previous one).
\<close>

definition frameEnergy :: "real list \<Rightarrow> int \<Rightarrow> real" where
  "frameEnergy monoSignal start =
     (\<Sum>i\<leftarrow>[0..<1024].
        if start + int i \<ge> 0 \<and> start + int i < int (length monoSignal)
        then monoSignal ! nat (start + int i) * monoSignal ! nat (start + int i) else 0)"

function energyOnsetsFrom :: "real list \<Rightarrow> nat \<Rightarrow> real list" where
  "energyOnsetsFrom monoSignal pos =
     (if int pos < int (length monoSignal) - 1024
      then max 0 (frameEnergy monoSignal (int pos) - frameEnergy monoSignal (int pos - 512))
             # energyOnsetsFrom monoSignal (pos + 512)
      else [])"
  by pat_completeness auto
termination
  by (relation "measure (\<lambda>(monoSignal, pos). length monoSignal - pos)") auto

text \<open>
  The lag loop \<open>for (lag = minLag; lag < maxLag && lag < size / 2; ++lag)\<close>, carrying
  \<open>bestCorr\<close> and \<open>bestLag\<close>.
\<close>

function lagSearch :: "real list \<Rightarrow> int \<Rightarrow> int \<Rightarrow> real \<Rightarrow> int \<Rightarrow> int" where
  "lagSearch onsetStrength maxLag lag bestCorr bestLag =
     (if lag < maxLag \<and> lag < int (length onsetStrength) div 2
      then (let count = int (length onsetStrength) - lag;
                correlation =
                  (\<Sum>i\<leftarrow>[0..<nat count]. onsetStrength ! i * onsetStrength ! nat (int i + lag))
            in if count > 0 \<and> correlation / real_of_int count > bestCorr
               then lagSearch onsetStrength maxLag (lag + 1) (correlation / real_of_int count) lag
               else lagSearch onsetStrength maxLag (lag + 1) bestCorr bestLag)
      else bestLag)"
  by pat_completeness auto
termination
  by (relation "measure (\<lambda>(onsetStrength, maxLag, lag, bestCorr, bestLag). nat (maxLag - lag))")
     auto

declare energyOnsetsFrom.simps [simp del] lagSearch.simps [simp del]

text \<open>
  The result is \<open>None\<close> when the function does not return: with \<open>bestLag = 0\<close> (a sample
  rate under 1707 Hz) the beat interval is zero, \<open>60.0 / beatInterval\<close> is \<open>+inf\<close> and the
  halving loop \<open>while (bpm > 180.0) bpm /= 2.0\<close> never leaves \<open>+inf\<close>. The sample rate of a
  decoded file is positive.
\<close>

definition detectBPMAutocorrelation :: "'st AudioTrack \<Rightarrow> real option" where
  "detectBPMAutocorrelation t =
     (if int (getNumSamples (audioBuffer t)) < cast_int (sampleRate t) then Some 120
      else (let onsetStrength = energyOnsetsFrom (monoSignalOf (audioBuffer t)) 0
            in if length onsetStrength < 10 then Some 120
               else (let minLag = cast_int (60 * sampleRate t / (200 * 512));
                         maxLag = cast_int (60 * sampleRate t / (60 * 512));
                         bestLag = lagSearch onsetStrength maxLag minLag 0 minLag;
                         beatInterval = (real_of_int bestLag * 512) / sampleRate t
                     in if beatInterval = 0 then None
                        else Some (octaveDown (octaveUp (60 / beatInterval))))))"

subsection \<open>Duration stage\<close>

definition detectBPMImproved :: "'st AudioTrack \<Rightarrow> real" where
  "detectBPMImproved t =
     (if \<not> isLoaded t \<or> getNumSamples (audioBuffer t) = 0 then 120
      else (let duration = getDurationInSeconds t;
                possibleBPMs = filter (\<lambda>bpm. bpm \<ge> 60 \<and> bpm \<le> 200)
                                 (map (\<lambda>beats. (beats * 60) / duration) [4, 8, 16, 32])
            in if possibleBPMs \<noteq> []
               then (case filter (\<lambda>bpm. bpm \<ge> 65 \<and> bpm \<le> 150) possibleBPMs of
                       bpm # rest \<Rightarrow> bpm
                     | [] \<Rightarrow> hd possibleBPMs)
               else 120))"

subsection \<open>Loading\<close>

text \<open>
  The four assignments to \<open>detectedBPM\<close> in \<open>loadAudioFile\<close>, each later one guarded by
  \<open>detectedBPM < 60.0 || detectedBPM > 200.0\<close>.
\<close>

definition outOfRange :: "real \<Rightarrow> bool" where
  "outOfRange bpm = (bpm < 60 \<or> bpm > 200)"

definition detectBPMOnLoad :: "'st AudioTrack \<Rightarrow> real option" where
  "detectBPMOnLoad t =
     (let d1 = detectBPMFromOnsets t
      in if outOfRange d1
         then (case detectBPMAutocorrelation t of
                 None \<Rightarrow> None
               | Some d2 \<Rightarrow>
                   (let d3 = (if outOfRange d2 then detectBPMImproved t else d2)
                    in Some (if outOfRange d3 then 120 else d3)))
         else Some d1)"

definition initializeSoundTouch :: "'st SoundTouchOps \<Rightarrow> 'st AudioTrack \<Rightarrow> 'st AudioTrack" where
  "initializeSoundTouch ops t =
     (if getNumSamples (audioBuffer t) > 0
      then t\<lparr>soundTouch :=
               st_clear ops
                 (st_setPitch ops 1
                   (st_setTempo ops (stretchRatio t)
                     (st_setChannels ops (getNumChannels (audioBuffer t))
                       (st_setSampleRate ops (nat (cast_int (sampleRate t))) (soundTouch t)))))\<rparr>
      else t)"

text \<open>
  \<open>loadAudioFile\<close>: the reader is \<open>None\<close> when the file cannot be decoded, else the decoded
  buffer and its sample rate. The result is \<open>None\<close> when the call does not return.
\<close>

definition loadAudioFile ::
  "'st SoundTouchOps \<Rightarrow> (AudioBuffer \<times> real) option \<Rightarrow> 'st AudioTrack \<Rightarrow> 'st AudioTrack option" where
  "loadAudioFile ops reader t =
     (case reader of
        None \<Rightarrow> Some t
      | Some (decoded, rate) \<Rightarrow>
          (let t1 = t\<lparr>audioBuffer := decoded, sampleRate := rate, currentPosition := 0,
                      stretchRatio := 1, hasCustomLoopRegion := False,
                      loopStartTime := 0, loopEndTime := 0\<rparr>
           in case detectBPMOnLoad t1 of
                None \<Rightarrow> None
              | Some bpm \<Rightarrow> Some (initializeSoundTouch ops (t1\<lparr>detectedBPM := bpm\<rparr>))))"


section \<open>Playback\<close>

text \<open>
  The locals \<open>loopStart\<close>, \<open>loopEnd\<close>, \<open>loopStartSample\<close> and \<open>loopEndSample\<close>, computed
  alike at the head of \<open>processDirectPlayback\<close> and of \<open>processWithSoundTouch\<close>.
\<close>

definition loopStartOf :: "'st AudioTrack \<Rightarrow> real" where
  "loopStartOf t =
     (if hasCustomLoopRegion t \<and> loopEndTime t > loopStartTime t then loopStartTime t else 0)"

definition loopEndOf :: "'st AudioTrack \<Rightarrow> real" where
  "loopEndOf t =
     (if hasCustomLoopRegion t \<and> loopEndTime t > loopStartTime t then loopEndTime t
      else getDurationInSeconds t)"

definition loopStartSampleOf :: "'st AudioTrack \<Rightarrow> int" where
  "loopStartSampleOf t = cast_int (loopStartOf t * sampleRate t)"

definition loopEndSampleOf :: "'st AudioTrack \<Rightarrow> int" where
  "loopEndSampleOf t =
     min (cast_int (loopEndOf t * sampleRate t)) (int (getNumSamples (audioBuffer t)))"

text \<open>
  The block "Handle looping within the defined region" of both functions: the sample index
  to read from and the track with its position moved into the region, or \<open>None\<close> where the
  function returns (not looping, at or past the region end). \<open>clear\<close> is what happens to
  the primitive when the position is moved: nothing in direct playback,
  \<open>soundTouch->clear()\<close> in stretched playback.
\<close>

definition loopEntry :: "('st \<Rightarrow> 'st) \<Rightarrow> 'st AudioTrack \<Rightarrow> (int \<times> 'st AudioTrack) option" where
  "loopEntry clear t =
     (let currentSample = cast_int (currentPosition t * sampleRate t)
      in if looping t
         then (if currentSample < loopStartSampleOf t
               then Some (loopStartSampleOf t,
                          t\<lparr>currentPosition := loopStartOf t, soundTouch := clear (soundTouch t)\<rparr>)
               else if currentSample \<ge> loopEndSampleOf t
               then (let wrapped = loopStartSampleOf t
                                     + (currentSample - loopStartSampleOf t)
                                         mod (loopEndSampleOf t - loopStartSampleOf t)
                     in Some (wrapped,
                              t\<lparr>currentPosition := real_of_int wrapped / sampleRate t,
                                soundTouch := clear (soundTouch t)\<rparr>))
               else Some (currentSample, t))
         else if currentSample \<ge> loopEndSampleOf t then None
         else Some (currentSample, t))"

text \<open>
  A playback function returns the track, the output buffer and the ranges
  \<open>(first index, count)\<close> of source frames it read, which are the arguments it passes to
  \<open>addFrom\<close> and \<open>copyFrom\<close>.
\<close>

type_synonym 'st rendered = "'st AudioTrack \<times> AudioBuffer \<times> (int \<times> int) list"

definition processDirectPlayback ::
  "'st AudioTrack \<Rightarrow> AudioBuffer \<Rightarrow> int \<Rightarrow> int \<Rightarrow> 'st rendered" where
  "processDirectPlayback t buffer startSample numSamples =
     (if loopEndSampleOf t - loopStartSampleOf t \<le> 0 then (t, buffer, [])
      else (case loopEntry (\<lambda>st. st) t of
              None \<Rightarrow> (t, buffer, [])
            | Some (currentSample, t1) \<Rightarrow>
                (let samplesToRead = min numSamples (loopEndSampleOf t - currentSample)
                 in if samplesToRead \<le> 0 then (t1, buffer, [])
                    else (let outputChannels = getNumChannels buffer;
                              inputChannels = getNumChannels (audioBuffer t);
                              mixed = fold (\<lambda>ch b. addFrom b ch startSample (audioBuffer t) ch
                                                      currentSample samplesToRead (volume t))
                                        [0..<min outputChannels inputChannels] buffer;
                              mixed2 = (if inputChannels = 1 \<and> outputChannels \<ge> 2
                                        then addFrom mixed 1 startSample (audioBuffer t) 0
                                               currentSample samplesToRead (volume t)
                                        else mixed);
                              position = currentPosition t1
                                           + real_of_int samplesToRead / sampleRate t
                          in (t1\<lparr>currentPosition :=
                                   if looping t \<and> position \<ge> loopEndOf t then loopStartOf t
                                   else position\<rparr>,
                              mixed2, [(currentSample, samplesToRead)])))))"

text \<open>
  The samples handed to \<open>putSamples\<close>: the channel itself for a mono source, else the
  frames interleaved.
\<close>

definition interleavedInput :: "real list list \<Rightarrow> nat \<Rightarrow> real list" where
  "interleavedInput inputBuffer samplesToRead =
     (if length inputBuffer = 1 then inputBuffer ! 0
      else concat (map (\<lambda>sample. map (\<lambda>ch. inputBuffer ! ch ! sample) [0..<length inputBuffer])
                       [0..<samplesToRead]))"

text \<open>
  Mixing the received frames into the output. The receiving buffer holds at least 8192
  frames from loading on, so its resize is not taken for blocks up to that size and is
  left out.
\<close>

definition mixStretched ::
  "AudioBuffer \<Rightarrow> int \<Rightarrow> int \<Rightarrow> nat \<Rightarrow> real \<Rightarrow> real list \<Rightarrow> AudioBuffer" where
  "mixStretched buffer startSample numSamples inputChannels vol stretched =
     (let receivedSamples = length stretched div inputChannels;
          frames = min receivedSamples (nat numSamples);
          outputChannels = getNumChannels buffer
      in if receivedSamples > 0
         then (if inputChannels = 1
               then (let b0 = addSamples buffer 0 startSample
                                (map (\<lambda>i. stretched ! i * vol) [0..<frames])
                     in if outputChannels \<ge> 2
                        then addSamples b0 1 startSample
                               (map (\<lambda>i. stretched ! i * vol) [0..<frames])
                        else b0)
               else fold (\<lambda>ch b. addSamples b ch startSample
                                    (map (\<lambda>i. stretched ! (i * inputChannels + ch) * vol)
                                         [0..<frames]))
                      [0..<min outputChannels inputChannels] buffer)
         else buffer)"

definition processWithSoundTouch ::
  "'st SoundTouchOps \<Rightarrow> 'st AudioTrack \<Rightarrow> AudioBuffer \<Rightarrow> int \<Rightarrow> int \<Rightarrow> 'st rendered" where
  "processWithSoundTouch ops t buffer startSample numSamples =
     (let t0 = t\<lparr>soundTouch := st_setTempo ops (stretchRatio t) (soundTouch t)\<rparr>
      in if loopEndSampleOf t0 - loopStartSampleOf t0 \<le> 0 then (t0, buffer, [])
         else (case loopEntry (st_clear ops) t0 of
                 None \<Rightarrow> (t0, buffer, [])
               | Some (currentSample, t1) \<Rightarrow>
                   (let samplesToRead = min (numSamples * 2) (loopEndSampleOf t0 - currentSample)
                    in if samplesToRead \<le> 0 then (t1, buffer, [])
                       else (let inputChannels = getNumChannels (audioBuffer t0);
                                 inputBuffer = map (\<lambda>ch. sourceSlice (audioBuffer t0) ch
                                                           currentSample samplesToRead)
                                                 [0..<inputChannels];
                                 fed = st_putSamples ops
                                         (interleavedInput inputBuffer (nat samplesToRead))
                                         (nat samplesToRead) (soundTouch t1);
                                 received = st_receiveSamples ops (nat numSamples) fed;
                                 mixed = mixStretched buffer startSample numSamples inputChannels
                                           (volume t0) (fst received);
                                 position = currentPosition t1
                                              + real_of_int samplesToRead / sampleRate t0
                             in if looping t0 \<and> position \<ge> loopEndOf t0
                                then (t1\<lparr>currentPosition := loopStartOf t0,
                                         soundTouch := st_clear ops (snd received)\<rparr>,
                                      mixed, [(currentSample, samplesToRead)])
                                else (t1\<lparr>currentPosition := position,
                                         soundTouch := snd received\<rparr>,
                                      mixed, [(currentSample, samplesToRead)])))))"

definition processBlock ::
  "'st SoundTouchOps \<Rightarrow> 'st AudioTrack \<Rightarrow> AudioBuffer \<Rightarrow> int \<Rightarrow> int \<Rightarrow> 'st rendered" where
  "processBlock ops t buffer startSample numSamples =
     (if \<not> isLoaded t \<or> muted t \<or> numSamples \<le> 0 \<or> startSample < 0 then (t, buffer, [])
      else if getNumChannels buffer \<le> 0 \<or> getNumChannels (audioBuffer t) \<le> 0
                \<or> getNumSamples (audioBuffer t) \<le> 0 then (t, buffer, [])
      else if wrap32 (startSample + numSamples) > int (getNumSamples buffer)
      then (t, buffer, [])
      else if \<bar>stretchRatio t - 1\<bar> < 0.02
      then processDirectPlayback t buffer startSample numSamples
      else processWithSoundTouch ops t buffer startSample numSamples)"

text \<open>
  A sequence of \<open>processBlock\<close> calls on one track, each with its own output buffer, offset
  and frame count; the result is the track and every source range read, in order.
\<close>

fun renderBlocks ::
  "'st SoundTouchOps \<Rightarrow> 'st AudioTrack \<Rightarrow> (AudioBuffer \<times> int \<times> int) list
     \<Rightarrow> 'st AudioTrack \<times> (int \<times> int) list" where
  "renderBlocks ops t [] = (t, [])"
| "renderBlocks ops t ((buffer, startSample, numSamples) # calls) =
     (case processBlock ops t buffer startSample numSamples of
        (t', out, reads) \<Rightarrow>
          (case renderBlocks ops t' calls of (t'', reads') \<Rightarrow> (t'', reads @ reads')))"


text \<open>
  What a run of \<open>processBlock\<close> calls keeps of a track \<open>base\<close> with the loop region
  \<open>[startTime, endTime]\<close> installed: the buffer, the rate, the flags and the region, and,
  when not looping, a position at or after the region start.
\<close>

definition confined :: "real \<Rightarrow> real \<Rightarrow> 'st AudioTrack \<Rightarrow> 'st AudioTrack \<Rightarrow> bool" where
  "confined startTime endTime base t =
     (audioBuffer t = audioBuffer base \<and> sampleRate t = sampleRate base
      \<and> looping t = looping base \<and> stretchRatio t = stretchRatio base
      \<and> hasCustomLoopRegion t \<and> loopStartTime t = startTime \<and> loopEndTime t = endTime
      \<and> (\<not> looping t \<longrightarrow> startTime \<le> currentPosition t))"


section \<open>The session\<close>

text \<open>
  The fields of \<open>MainComponent\<close> that the engine computes with. \<open>audioTracks\<close> is the array
  of tracks, every pointer of which is set by \<open>setupTracks\<close>; a track pointer is its index.
\<close>

record 'st MainComponent =
  audioTracks :: "'st AudioTrack list"
  masterTempo :: real
  previousMasterTempo :: real
  currentPlayPosition :: real
  isPlaying :: bool
  isRecording :: bool
  autoSyncEnabled :: bool
  metronomeEnabled :: bool
  metronomePhase :: real
  metronomeBeatInterval :: xdouble
  lastBeatTime :: real
  metronomeVolume :: real

text \<open>The constructor with \<open>setupTracks\<close>: eight empty tracks at 120 BPM.\<close>

definition newMainComponent :: "'st \<Rightarrow> 'st MainComponent" where
  "newMainComponent st =
     \<lparr> audioTracks = replicate 8 (setMasterBPM 120 (newAudioTrack st)),
       masterTempo = 120,
       previousMasterTempo = 120,
       currentPlayPosition = 0,
       isPlaying = False,
       isRecording = False,
       autoSyncEnabled = True,
       metronomeEnabled = False,
       metronomePhase = 0,
       metronomeBeatInterval = Num (60 / 120),
       lastBeatTime = 0,
       metronomeVolume = 0.5 \<rparr>"

subsection \<open>Tempo\<close>

definition setTempo :: "real \<Rightarrow> 'st MainComponent \<Rightarrow> 'st MainComponent" where
  "setTempo bpm s =
     (let scaleFactor = ddiv bpm (previousMasterTempo s);
          scaled = map (\<lambda>t. if isLoaded t then scaleStretchRatio scaleFactor t else t)
                       (audioTracks s)
      in s\<lparr>audioTracks := map (setMasterBPM bpm) scaled,
            previousMasterTempo := masterTempo s,
            masterTempo := bpm,
            metronomeBeatInterval := ddiv 60 bpm\<rparr>)"

definition setInitialMasterBPM ::
  "real \<Rightarrow> nat option \<Rightarrow> 'st MainComponent \<Rightarrow> 'st MainComponent" where
  "setInitialMasterBPM bpm definingTrack s =
     s\<lparr>previousMasterTempo := masterTempo s,
       masterTempo := bpm,
       metronomeBeatInterval := ddiv 60 bpm,
       audioTracks :=
         map (\<lambda>i. if definingTrack = Some i
                   then setMasterBPM bpm (setStretchRatio (Num 1) (audioTracks s ! i))
                   else setMasterBPM bpm (audioTracks s ! i))
             [0..<length (audioTracks s)]\<rparr>"

definition onTrackLoaded :: "real \<Rightarrow> 'st MainComponent \<Rightarrow> 'st MainComponent" where
  "onTrackLoaded trackBPM s =
     (let loaded = filter (\<lambda>i. isLoaded (audioTracks s ! i)) [0..<length (audioTracks s)]
      in if length loaded = 1 \<and> trackBPM > 0 \<and> loaded \<noteq> []
         then setInitialMasterBPM trackBPM (Some (last loaded)) s
         else s)"

text \<open>
  The completion of the file chooser in \<open>TrackComponent::loadButtonClicked\<close> for the track
  at index \<open>i\<close>: load, then report the detected tempo to the session.
\<close>

definition loadButtonClicked ::
  "'st SoundTouchOps \<Rightarrow> nat \<Rightarrow> (AudioBuffer \<times> real) option \<Rightarrow> 'st MainComponent
     \<Rightarrow> 'st MainComponent option" where
  "loadButtonClicked ops i reader s =
     (case loadAudioFile ops reader (audioTracks s ! i) of
        None \<Rightarrow> None
      | Some t' \<Rightarrow>
          (let s1 = s\<lparr>audioTracks := (audioTracks s)[i := t']\<rparr>
           in Some (if detectedBPM t' > 0 then onTrackLoaded (detectedBPM t') s1 else s1)))"

subsection \<open>Calls that touch a stretch ratio\<close>

datatype command =
    SetStretchRatio nat xdouble
  | ScaleStretchRatio nat xdouble
  | AutoSyncToMaster nat
  | SetTempo real
  | SetInitialMasterBPM real "nat option"

definition onTrack ::
  "nat \<Rightarrow> ('st AudioTrack \<Rightarrow> 'st AudioTrack) \<Rightarrow> 'st MainComponent \<Rightarrow> 'st MainComponent" where
  "onTrack i f s =
     (if i < length (audioTracks s) then s\<lparr>audioTracks := (audioTracks s)[i := f (audioTracks s ! i)]\<rparr>
      else s)"

fun applyCommand :: "command \<Rightarrow> 'st MainComponent \<Rightarrow> 'st MainComponent" where
  "applyCommand (SetStretchRatio i ratio) s = onTrack i (setStretchRatio ratio) s"
| "applyCommand (ScaleStretchRatio i scaleFactor) s = onTrack i (scaleStretchRatio scaleFactor) s"
| "applyCommand (AutoSyncToMaster i) s = onTrack i autoSyncToMaster s"
| "applyCommand (SetTempo bpm) s = setTempo bpm s"
| "applyCommand (SetInitialMasterBPM bpm definingTrack) s = setInitialMasterBPM bpm definingTrack s"

subsection \<open>The audio callback\<close>

text \<open>
  \<open>prepareToPlay\<close> is how the host tells the block size and the device sample rate; the
  body is \<open>juce::ignoreUnused (samplesPerBlockExpected, sampleRate)\<close>.
\<close>

definition prepareToPlay :: "int \<Rightarrow> real \<Rightarrow> 'st MainComponent \<Rightarrow> 'st MainComponent" where
  "prepareToPlay samplesPerBlockExpected deviceSampleRate s = s"

text \<open>
  \<open>juce::AudioSourceChannelInfo\<close>: the buffer and the region of it to fill.
  \<open>clearActiveBufferRegion\<close> clears that region.
\<close>

record AudioSourceChannelInfo =
  infoBuffer :: AudioBuffer
  infoStartSample :: int
  infoNumSamples :: int

definition clearActiveBufferRegion :: "AudioSourceChannelInfo \<Rightarrow> AudioBuffer" where
  "clearActiveBufferRegion info =
     clearRegion (infoBuffer info) (infoStartSample info) (infoNumSamples info)"

text \<open>The track loop of the callback, in array order, over the shared output buffer.\<close>

fun mixTracks ::
  "'st SoundTouchOps \<Rightarrow> bool \<Rightarrow> int \<Rightarrow> int \<Rightarrow> 'st AudioTrack list \<Rightarrow> AudioBuffer
     \<Rightarrow> 'st AudioTrack list \<times> AudioBuffer" where
  "mixTracks ops hasSolo startSample numSamples [] buffer = ([], buffer)"
| "mixTracks ops hasSolo startSample numSamples (t # ts) buffer =
     (if isLoaded t \<and> \<not> (muted t \<or> (hasSolo \<and> \<not> solo t))
      then (case processBlock ops t buffer startSample numSamples of
              (t', out, reads) \<Rightarrow>
                (case mixTracks ops hasSolo startSample numSamples ts out of
                   (ts', out') \<Rightarrow> (t' # ts', out')))
      else (case mixTracks ops hasSolo startSample numSamples ts buffer of
              (ts', out') \<Rightarrow> (t # ts', out')))"

definition generateClickSound :: "real \<Rightarrow> real" where
  "generateClickSound phase =
     (if phase > 0.01 then 0
      else (let envelope = 1 - phase / 0.01
            in sin (2 * pi * 2000 * phase) * (envelope * envelope) * 0.3))"

text \<open>One iteration of the sample loop of \<open>processMetronome\<close>.\<close>

definition metronomeStep ::
  "nat \<Rightarrow> 'st MainComponent \<times> AudioBuffer \<Rightarrow> 'st MainComponent \<times> AudioBuffer" where
  "metronomeStep sample sb =
     (let s = fst sb;
          buffer = snd sb;
          currentTime = currentPlayPosition s + real sample / 44100;
          s1 = (if geX (currentTime - lastBeatTime s) (metronomeBeatInterval s)
                then s\<lparr>lastBeatTime := currentTime, metronomePhase := 0\<rparr>
                else s);
          clickSample = generateClickSound (metronomePhase s1);
          b1 = (if getNumChannels buffer \<ge> 1
                then addSamples buffer 0 (int sample) [clickSample * metronomeVolume s1]
                else buffer);
          b2 = (if getNumChannels buffer \<ge> 2
                then addSamples b1 1 (int sample) [clickSample * metronomeVolume s1]
                else b1)
      in (s1\<lparr>metronomePhase := metronomePhase s1 + 1 / 44100\<rparr>, b2))"

definition processMetronome ::
  "'st MainComponent \<Rightarrow> AudioBuffer \<Rightarrow> int \<Rightarrow> 'st MainComponent \<times> AudioBuffer" where
  "processMetronome s buffer numSamples =
     (if \<not> metronomeEnabled s \<or> \<not> isPlaying s then (s, buffer)
      else fold metronomeStep [0..<nat numSamples]
             (s\<lparr>metronomeBeatInterval := ddiv 60 (masterTempo s)\<rparr>, buffer))"

definition getNextAudioBlock ::
  "'st SoundTouchOps \<Rightarrow> 'st MainComponent \<Rightarrow> AudioSourceChannelInfo
     \<Rightarrow> 'st MainComponent \<times> AudioBuffer" where
  "getNextAudioBlock ops s bufferToFill =
     (let cleared = clearActiveBufferRegion bufferToFill
      in if \<not> isPlaying s then (s, cleared)
         else (let numSamples = infoNumSamples bufferToFill;
                   hasSolo = list_ex solo (audioTracks s);
                   mixedTracks = mixTracks ops hasSolo (infoStartSample bufferToFill) numSamples
                                   (audioTracks s) cleared;
                   s1 = s\<lparr>audioTracks := fst mixedTracks\<rparr>;
                   clicked = (if metronomeEnabled s1
                              then processMetronome s1 (snd mixedTracks) numSamples
                              else (s1, snd mixedTracks))
               in ((fst clicked)\<lparr>currentPlayPosition :=
                                   currentPlayPosition (fst clicked)
                                     + real_of_int numSamples / 44100\<rparr>,
                   snd clicked)))"


section \<open>Concrete inputs\<close>

text \<open>
  A primitive to run the engine on concrete inputs: a queue that hands back what it was
  fed, unstretched.
\<close>

definition fifoStretcher :: "real list SoundTouchOps" where
  "fifoStretcher =
     \<lparr> st_setSampleRate = (\<lambda>rate q. q),
       st_setChannels = (\<lambda>channels q. q),
       st_setTempo = (\<lambda>tempo q. q),
       st_setPitch = (\<lambda>pitch q. q),
       st_clear = (\<lambda>q. []),
       st_putSamples = (\<lambda>samples count q. q @ samples),
       st_receiveSamples = (\<lambda>maxSamples q. (take maxSamples q, drop maxSamples q)) \<rparr>"

text \<open>A loaded mono clip of 16 frames at 8000 Hz (2 ms), as \<open>loadAudioFile\<close> leaves it.\<close>

definition clip16 :: "real list AudioTrack" where
  "clip16 =
     (newAudioTrack [])
       \<lparr> audioBuffer := \<lparr>channelData = [replicate 16 (1 / 2)], numFrames = 16\<rparr>,
         sampleRate := 8000,
         detectedBPM := 120 \<rparr>"

text \<open>A session at 120 BPM with two loaded tracks, the first stretched by 3.\<close>

definition twoTrackSession :: "real list MainComponent" where
  "twoTrackSession =
     (newMainComponent [])\<lparr>audioTracks := [clip16\<lparr>stretchRatio := 3\<rparr>, clip16]\<rparr>"

text \<open>A fresh session with one loaded track, at stretch ratio 1.\<close>

definition oneTrackSession :: "real list MainComponent" where
  "oneTrackSession = (newMainComponent [])\<lparr>audioTracks := [clip16]\<rparr>"

text \<open>
  A session that has been used: master tempo 90 after 120, an empty track whose ratio the
  stretch slider has set to 2, and a loaded track at ratio 3.
\<close>

definition usedSession :: "real list MainComponent" where
  "usedSession =
     (newMainComponent [])
       \<lparr> audioTracks := [(newAudioTrack [])\<lparr>stretchRatio := 2, masterBPM := 90\<rparr>,
                         clip16\<lparr>stretchRatio := 3, masterBPM := 90\<rparr>],
         masterTempo := 90,
         previousMasterTempo := 120 \<rparr>"

text \<open>One second of mono silence at 44100 Hz.\<close>

definition oneSecondSilence :: AudioBuffer where
  "oneSecondSilence = \<lparr>channelData = [replicate 44100 0], numFrames = 44100\<rparr>"

lemmas example_defs =
  fifoStretcher_def clip16_def twoTrackSession_def oneTrackSession_def usedSession_def
  newAudioTrack_def newMainComponent_def

lemmas playback_defs =
  processBlock_def processDirectPlayback_def processWithSoundTouch_def loopEntry_def
  loopStartOf_def loopEndOf_def loopStartSampleOf_def loopEndSampleOf_def
  getDurationInSeconds_def cast_int_def wrap32_def

lemmas ratio_defs =
  setStretchRatio_def scaleStretchRatio_def autoSyncToMaster_def setMasterBPM_def
  jlimit_def ddiv_def isLoaded_def getNumSamples_def getNumChannels_def


section \<open>The stretch ratio stays in range\<close>

lemma setStretchRatio_inRange:
  "inRange (stretchRatio t) \<Longrightarrow> inRange (stretchRatio (setStretchRatio ratio t))"
  by (cases ratio) (auto simp: setStretchRatio_def jlimit_def inRange_def)

lemma scaleStretchRatio_inRange:
  "inRange (stretchRatio t) \<Longrightarrow> inRange (stretchRatio (scaleStretchRatio scaleFactor t))"
  by (cases scaleFactor) (auto simp: scaleStretchRatio_def jlimit_def inRange_def)

lemma autoSyncToMaster_inRange:
  "inRange (stretchRatio t) \<Longrightarrow> inRange (stretchRatio (autoSyncToMaster t))"
  by (simp add: autoSyncToMaster_def setStretchRatio_inRange)

lemma stretchRatio_setMasterBPM [simp]: "stretchRatio (setMasterBPM bpm t) = stretchRatio t"
  by (simp add: setMasterBPM_def)

lemma length_applyCommand [simp]:
  "length (audioTracks (applyCommand c s)) = length (audioTracks s)"
  by (cases c) (simp_all add: onTrack_def setTempo_def setInitialMasterBPM_def)

lemma applyCommand_inRange:
  assumes "i < length (audioTracks s)" and "inRange (stretchRatio (audioTracks s ! i))"
  shows "inRange (stretchRatio (audioTracks (applyCommand c s) ! i))"
proof (cases c)
  case (SetStretchRatio j ratio)
  then show ?thesis using assms
    by (cases "i = j") (simp_all add: onTrack_def setStretchRatio_inRange)
next
  case (ScaleStretchRatio j scaleFactor)
  then show ?thesis using assms
    by (cases "i = j") (simp_all add: onTrack_def scaleStretchRatio_inRange)
next
  case (AutoSyncToMaster j)
  then show ?thesis using assms
    by (cases "i = j") (simp_all add: onTrack_def autoSyncToMaster_inRange)
next
  case (SetTempo bpm)
  then show ?thesis using assms
    by (simp add: setTempo_def Let_def scaleStretchRatio_inRange)
next
  case (SetInitialMasterBPM bpm definingTrack)
  then show ?thesis using assms
    by (simp add: setInitialMasterBPM_def setStretchRatio_inRange)
qed

lemma fold_applyCommand_inRange:
  "i < length (audioTracks s) \<Longrightarrow> inRange (stretchRatio (audioTracks s ! i)) \<Longrightarrow>
   i < length (audioTracks (fold applyCommand cmds s))
   \<and> inRange (stretchRatio (audioTracks (fold applyCommand cmds s) ! i))"
proof (induction cmds arbitrary: s)
  case Nil
  then show ?case by simp
next
  case (Cons c cmds)
  have "i < length (audioTracks (applyCommand c s))"
    using Cons.prems by simp
  moreover have "inRange (stretchRatio (audioTracks (applyCommand c s) ! i))"
    using Cons.prems by (rule applyCommand_inRange)
  ultimately show ?case
    using Cons.IH by simp
qed

text \<open>
  C3. A track of the session whose stretch ratio is 1.0 has, after any finite sequence of
  \<open>setStretchRatio\<close>, \<open>scaleStretchRatio\<close>, \<open>autoSyncToMaster\<close>, \<open>setTempo\<close> and
  \<open>setInitialMasterBPM\<close> calls (on any tracks, with any arguments, infinite and NaN ratios
  and zero tempos included), a stretch ratio in \<open>[0.25, 4.0]\<close>.
\<close>

theorem stretchRatio_stays_in_range:
  assumes "i < length (audioTracks s)" and "stretchRatio (audioTracks s ! i) = 1"
  shows "1 / 4 \<le> stretchRatio (audioTracks (fold applyCommand cmds s) ! i)
       \<and> stretchRatio (audioTracks (fold applyCommand cmds s) ! i) \<le> 4"
proof -
  have "inRange (stretchRatio (audioTracks s ! i))"
    using assms(2) by (simp add: inRange_def)
  then show ?thesis
    using fold_applyCommand_inRange [OF assms(1)] by (simp add: inRange_def)
qed

theorem stretchRatio_stays_in_range_witness:
  "(1::nat) < length (audioTracks twoTrackSession)
   \<and> stretchRatio (audioTracks twoTrackSession ! 1) = 1
   \<and> 1 / 4 \<le> stretchRatio (audioTracks (fold applyCommand
         [SetStretchRatio 0 (Num 9), SetTempo 0, SetTempo 5, SetTempo 7,
          ScaleStretchRatio 0 NegInf, AutoSyncToMaster 0, SetInitialMasterBPM 90 (Some 0)]
         twoTrackSession) ! 1)
   \<and> stretchRatio (audioTracks (fold applyCommand
         [SetStretchRatio 0 (Num 9), SetTempo 0, SetTempo 5, SetTempo 7,
          ScaleStretchRatio 0 NegInf, AutoSyncToMaster 0, SetInitialMasterBPM 90 (Some 0)]
         twoTrackSession) ! 1) \<le> 4"
proof -
  have len: "(1::nat) < length (audioTracks twoTrackSession)"
    by (simp add: example_defs)
  have one: "stretchRatio (audioTracks twoTrackSession ! 1) = 1"
    by (simp add: example_defs)
  show ?thesis
    using len one stretchRatio_stays_in_range [OF len one] by blast
qed


section \<open>A tempo change and its inverse\<close>

text \<open>
  C2 fails on the code. In a fresh session (master tempo and previous master tempo 120)
  with one loaded track at stretch ratio 1, \<open>setTempo (240)\<close> doubles the ratio and
  \<open>setTempo (120)\<close>, the master tempo in effect before, leaves it at 2: no clamp is
  involved, the second call divides 120 by the previous master tempo, which the first call
  has set to 120. The same divisor turns the change from 100 to 150 BPM, on a session whose
  first track has set the master tempo to 100, into a rescaling by 150/120: a track at 0.8
  goes to 1.0, not to 1.2.
\<close>

theorem setTempo_roundtrip_fails:
  "masterTempo oneTrackSession = 120
   \<and> previousMasterTempo oneTrackSession = 120
   \<and> map stretchRatio (audioTracks oneTrackSession) = [1]
   \<and> map stretchRatio (audioTracks (setTempo 240 oneTrackSession)) = [2]
   \<and> previousMasterTempo (setTempo 240 oneTrackSession) = 120
   \<and> map stretchRatio
         (audioTracks (setTempo (masterTempo oneTrackSession) (setTempo 240 oneTrackSession)))
       = [2]
   \<and> masterTempo (setInitialMasterBPM 100 (Some 0)
         ((newMainComponent [])\<lparr>audioTracks := [clip16, clip16\<lparr>stretchRatio := 4 / 5\<rparr>]\<rparr>))
       = 100
   \<and> map stretchRatio
         (audioTracks (setTempo 150 (setInitialMasterBPM 100 (Some 0)
           ((newMainComponent [])\<lparr>audioTracks := [clip16, clip16\<lparr>stretchRatio := 4 / 5\<rparr>]\<rparr>))))
       = [5 / 4, 1]"
  by (simp add: example_defs setTempo_def setInitialMasterBPM_def Let_def ratio_defs)


section \<open>The loop region setter\<close>

text \<open>
  C5. \<open>setLoopRegion (start, end)\<close> acts exactly when \<open>0 \<le> start < end \<le> duration\<close>: it
  then installs the region and moves the position to \<open>start\<close> if it lies outside
  \<open>[start, end]\<close>, changing nothing else; otherwise it returns the track as it was.
\<close>

theorem setLoopRegion_accepts_valid_only:
  "(0 \<le> startTime \<and> startTime < endTime \<and> endTime \<le> getDurationInSeconds t \<longrightarrow>
      setLoopRegion startTime endTime t =
        t\<lparr>loopStartTime := startTime, loopEndTime := endTime, hasCustomLoopRegion := True,
          currentPosition := (if currentPosition t < startTime \<or> endTime < currentPosition t
                              then startTime else currentPosition t)\<rparr>)
   \<and> (\<not> (0 \<le> startTime \<and> startTime < endTime \<and> endTime \<le> getDurationInSeconds t) \<longrightarrow>
      setLoopRegion startTime endTime t = t)"
  by (auto simp: setLoopRegion_def Let_def)

theorem setLoopRegion_accepts_valid_only_witness:
  "getDurationInSeconds clip16 = 1 / 500
   \<and> currentPosition (setLoopRegion (1 / 1000) (1 / 500) clip16) = 1 / 1000
   \<and> loopStartTime (setLoopRegion (1 / 1000) (1 / 500) clip16) = 1 / 1000
   \<and> loopEndTime (setLoopRegion (1 / 1000) (1 / 500) clip16) = 1 / 500
   \<and> hasCustomLoopRegion (setLoopRegion (1 / 1000) (1 / 500) clip16)
   \<and> setLoopRegion (1 / 1000) (1 / 250) clip16 = clip16
   \<and> setLoopRegion (1 / 500) (1 / 1000) clip16 = clip16"
proof -
  have d: "getDurationInSeconds clip16 = 1 / 500"
    by (simp add: getDurationInSeconds_def example_defs getNumSamples_def)
  have p: "currentPosition clip16 = 0"
    by (simp add: example_defs)
  show ?thesis
    using setLoopRegion_accepts_valid_only [of "1 / 1000" "1 / 500" clip16]
      setLoopRegion_accepts_valid_only [of "1 / 1000" "1 / 250" clip16]
      setLoopRegion_accepts_valid_only [of "1 / 500" "1 / 1000" clip16]
    by (simp add: d p)
qed


section \<open>Blocks outside the output buffer\<close>

text \<open>
  As long as \<open>startSample + numSamples\<close> does not overflow, a \<open>processBlock\<close> call with a
  negative \<open>startSample\<close>, or with \<open>startSample + numSamples\<close> beyond the frames of the
  output buffer, changes nothing: it returns the track (position and primitive included)
  and the output buffer as they were and reads no source frame.
\<close>

lemma wrap32_in_range: "- 2147483648 \<le> x \<Longrightarrow> x \<le> 2147483647 \<Longrightarrow> wrap32 x = x"
  by (simp add: wrap32_def)

lemma processBlock_noop_without_overflow:
  assumes "- 2147483648 \<le> startSample + numSamples"
    and "startSample + numSamples \<le> 2147483647"
    and "startSample < 0 \<or> startSample + numSamples > int (getNumSamples buffer)"
  shows "processBlock ops t buffer startSample numSamples = (t, buffer, [])"
  using assms by (auto simp: processBlock_def wrap32_in_range)

text \<open>
  C10 fails on the code where the sum overflows. With \<open>startSample = 2147483647\<close> and
  \<open>numSamples = 1\<close> the exact sum exceeds the 8 frames of the output buffer, but the
  32-bit sum is \<open>-2147483648\<close>, the bounds check lets the call through, and direct
  playback takes one source frame and moves the position of the track on by 1/8000 s.
\<close>

theorem processBlock_bounds_check_overflows:
  "(2147483647 :: int) + 1 > int (getNumSamples \<lparr>channelData = [replicate 8 0], numFrames = 8\<rparr>)
   \<and> wrap32 (2147483647 + 1) = - 2147483648
   \<and> currentPosition clip16 = 0
   \<and> currentPosition (fst (processBlock fifoStretcher clip16
          \<lparr>channelData = [replicate 8 0], numFrames = 8\<rparr> 2147483647 1)) = 1 / 8000
   \<and> snd (snd (processBlock fifoStretcher clip16
          \<lparr>channelData = [replicate 8 0], numFrames = 8\<rparr> 2147483647 1)) = [(0, 1)]"
  by (simp add: example_defs playback_defs ratio_defs Let_def)

text \<open>So the call at that input is not the no-op that the exact sum asks for.\<close>

theorem processBlock_bounds_check_overflows_witness:
  "processBlock fifoStretcher clip16 \<lparr>channelData = [replicate 8 0], numFrames = 8\<rparr>
       2147483647 1
     \<noteq> (clip16, \<lparr>channelData = [replicate 8 0], numFrames = 8\<rparr>, [])"
  using processBlock_bounds_check_overflows by auto


section \<open>The tempo assigned on load\<close>

lemma octaveUp_lower: "bpm > 0 \<Longrightarrow> octaveUp bpm \<ge> 70"
proof (induction bpm rule: octaveUp.induct)
  case (1 bpm)
  show ?case
  proof (cases "bpm < 70 \<and> bpm > 0")
    case True
    then have "octaveUp (bpm * 2) \<ge> 70"
      using 1 by simp
    then show ?thesis
      using True by (subst octaveUp.simps) simp
  next
    case False
    then show ?thesis
      using 1(2) by (subst octaveUp.simps) simp
  qed
qed

lemma octaveDown_range: "bpm \<ge> 70 \<Longrightarrow> 70 \<le> octaveDown bpm \<and> octaveDown bpm \<le> 180"
proof (induction bpm rule: octaveDown.induct)
  case (1 bpm)
  show ?case
  proof (cases "bpm > 180")
    case True
    then have "70 \<le> octaveDown (bpm / 2) \<and> octaveDown (bpm / 2) \<le> 180"
      using 1 by simp
    then show ?thesis
      using True by (subst (1 2) octaveDown.simps) simp
  next
    case False
    then show ?thesis
      using 1(2) by (subst (1 2) octaveDown.simps) simp
  qed
qed

text \<open>The onset stage never leaves \<open>[70, 180]\<close>: it returns 120 or an octave-corrected tempo.\<close>

lemma findBestBPMCandidate_range:
  "70 \<le> findBestBPMCandidate onsetTimes \<and> findBestBPMCandidate onsetTimes \<le> 180"
  using octaveDown_range [OF octaveUp_lower]
  by (simp add: findBestBPMCandidate_def Let_def)

lemma detectBPMFromOnsets_range:
  "70 \<le> detectBPMFromOnsets t \<and> detectBPMFromOnsets t \<le> 180"
  using findBestBPMCandidate_range by (simp add: detectBPMFromOnsets_def)

lemma detectBPMFromOnsets_default:
  "int (getNumSamples (audioBuffer t)) < cast_int (sampleRate t)
     \<or> length (calculateOnsetStrength t) < 10
     \<or> length (onsetTimesOf (calculateOnsetStrength t) (sampleRate t)) < 4
     \<or> beatIntervals (onsetTimesOf (calculateOnsetStrength t) (sampleRate t)) = []
   \<Longrightarrow> detectBPMFromOnsets t = 120"
  by (auto simp: detectBPMFromOnsets_def findBestBPMCandidate_def)

lemma detectBPMOnLoad_onsets: "detectBPMOnLoad t = Some (detectBPMFromOnsets t)"
  using detectBPMFromOnsets_range [of t]
  by (simp add: detectBPMOnLoad_def outOfRange_def Let_def)

lemma fields_initializeSoundTouch [simp]:
  "audioBuffer (initializeSoundTouch ops t) = audioBuffer t"
  "sampleRate (initializeSoundTouch ops t) = sampleRate t"
  "stretchRatio (initializeSoundTouch ops t) = stretchRatio t"
  "detectedBPM (initializeSoundTouch ops t) = detectedBPM t"
  "masterBPM (initializeSoundTouch ops t) = masterBPM t"
  by (simp_all add: initializeSoundTouch_def)

lemma isLoaded_initializeSoundTouch [simp]:
  "isLoaded (initializeSoundTouch ops t) = isLoaded t"
  by (simp add: isLoaded_def)

lemma calculateOnsetStrength_cong:
  "audioBuffer t = audioBuffer u \<Longrightarrow> calculateOnsetStrength t = calculateOnsetStrength u"
  by (simp add: calculateOnsetStrength_def)

lemma loadAudioFile_Some:
  "loadAudioFile ops (Some (decoded, rate)) t =
     Some (initializeSoundTouch ops
       (t\<lparr>audioBuffer := decoded, sampleRate := rate, currentPosition := 0,
          stretchRatio := 1, hasCustomLoopRegion := False, loopStartTime := 0, loopEndTime := 0,
          detectedBPM := detectBPMFromOnsets (t\<lparr>audioBuffer := decoded, sampleRate := rate\<rparr>)\<rparr>))"
  apply (simp add: loadAudioFile_def Let_def detectBPMOnLoad_onsets)
  apply (simp add: detectBPMFromOnsets_def calculateOnsetStrength_def isLoaded_def)
  done

text \<open>
  C6. Loading any decoded buffer (any length, any channel count) at any sample rate
  returns, and the loaded track has a detected tempo in \<open>[60, 200]\<close>. Whenever the onset
  stage is inconclusive (the clip is shorter than a second, has fewer than ten analysis
  frames or fewer than four onsets, or no onset interval lies in \<open>(0.1, 2.0)\<close> seconds),
  the tempo is the 120 default.
\<close>

theorem load_assigns_tempo_in_range:
  "\<exists>t'. loadAudioFile ops (Some (decoded, rate)) t = Some t'
      \<and> audioBuffer t' = decoded \<and> sampleRate t' = rate
      \<and> 60 \<le> detectedBPM t' \<and> detectedBPM t' \<le> 200
      \<and> (int (getNumSamples decoded) < cast_int rate
           \<or> length (calculateOnsetStrength t') < 10
           \<or> length (onsetTimesOf (calculateOnsetStrength t') rate) < 4
           \<or> beatIntervals (onsetTimesOf (calculateOnsetStrength t') rate) = []
         \<longrightarrow> detectedBPM t' = 120)"
proof -
  define u where "u = t\<lparr>audioBuffer := decoded, sampleRate := rate\<rparr>"
  define t' where "t' = initializeSoundTouch ops
       (t\<lparr>audioBuffer := decoded, sampleRate := rate, currentPosition := 0,
          stretchRatio := 1, hasCustomLoopRegion := False, loopStartTime := 0, loopEndTime := 0,
          detectedBPM := detectBPMFromOnsets u\<rparr>)"
  have l: "loadAudioFile ops (Some (decoded, rate)) t = Some t'"
    by (simp add: loadAudioFile_Some t'_def u_def)
  have b: "audioBuffer t' = decoded" "sampleRate t' = rate"
    "detectedBPM t' = detectBPMFromOnsets u"
    by (simp_all add: t'_def)
  have bu: "audioBuffer u = decoded" "sampleRate u = rate"
    by (simp_all add: u_def)
  have r: "60 \<le> detectedBPM t' \<and> detectedBPM t' \<le> 200"
    using detectBPMFromOnsets_range [of u] b(3) by simp
  have c: "calculateOnsetStrength t' = calculateOnsetStrength u"
    by (rule calculateOnsetStrength_cong) (simp add: b bu)
  have d: "int (getNumSamples decoded) < cast_int rate
           \<or> length (calculateOnsetStrength t') < 10
           \<or> length (onsetTimesOf (calculateOnsetStrength t') rate) < 4
           \<or> beatIntervals (onsetTimesOf (calculateOnsetStrength t') rate) = []
         \<longrightarrow> detectedBPM t' = 120"
    using detectBPMFromOnsets_default [of u] by (simp add: c b bu)
  show ?thesis
    using l b r d by blast
qed

theorem load_assigns_tempo_in_range_witness:
  "\<exists>t'. loadAudioFile fifoStretcher
           (Some (\<lparr>channelData = [replicate 16 (1 / 2)], numFrames = 16\<rparr>, 8000))
           (newAudioTrack []) = Some t'
      \<and> 60 \<le> detectedBPM t' \<and> detectedBPM t' \<le> 200 \<and> detectedBPM t' = 120"
proof -
  have "int (getNumSamples \<lparr>channelData = [replicate 16 (1 / 2)], numFrames = 16\<rparr>)
          < cast_int 8000"
    by (simp add: getNumSamples_def cast_int_def)
  then show ?thesis
    using load_assigns_tempo_in_range
            [of fifoStretcher "\<lparr>channelData = [replicate 16 (1 / 2)], numFrames = 16\<rparr>" 8000
                "newAudioTrack []"]
    by blast
qed


section \<open>The fallback to autocorrelation\<close>

text \<open>The estimators on a silent buffer: every onset strength is zero.\<close>

lemma sum_list_zero: "(\<And>x. x \<in> set xs \<Longrightarrow> f x = (0::real)) \<Longrightarrow> sum_list (map f xs) = 0"
  by (induction xs) simp_all

lemma nth_zero: "set xs \<subseteq> {0::real} \<Longrightarrow> i < length xs \<Longrightarrow> xs ! i = 0"
  using nth_mem by blast

lemma currentSpectrumAt_silent:
  assumes "silent b"
  shows "currentSpectrumAt b pos = replicate 512 0"
proof -
  have "(\<Sum>ch\<leftarrow>[0..<getNumChannels b].
           if pos + bin < getNumSamples b then \<bar>getSample b ch (pos + bin)\<bar> else 0) = 0"
    for bin
    by (rule sum_list_zero) (use assms in \<open>simp add: silent_def\<close>)
  then have "currentSpectrumAt b pos = map (\<lambda>bin. 0) [0..<512]"
    by (simp add: currentSpectrumAt_def)
  then show ?thesis
    by (simp add: map_replicate_const)
qed

lemma spectralFlux_zero: "spectralFlux (replicate 512 0) (replicate 512 0) = 0"
  unfolding spectralFlux_def by (rule sum_list_zero) simp

lemma onsetStrengthFrom_silent:
  "silent b \<Longrightarrow> prev = replicate 512 0 \<Longrightarrow> set (onsetStrengthFrom b pos prev) \<subseteq> {0}"
proof (induction b pos prev rule: onsetStrengthFrom.induct)
  case (1 b pos prev)
  show ?case
  proof (cases "int pos < int (getNumSamples b) - 1024")
    case True
    have "set (onsetStrengthFrom b (pos + 512) (currentSpectrumAt b pos)) \<subseteq> {0}"
      using 1 True by (simp add: currentSpectrumAt_silent)
    then show ?thesis
      using True 1(2,3)
      by (subst onsetStrengthFrom.simps) (simp add: currentSpectrumAt_silent spectralFlux_zero)
  next
    case False
    then show ?thesis
      by (subst onsetStrengthFrom.simps) simp
  qed
qed

lemma onsetTimesOf_zero: "set onsetStrength \<subseteq> {0} \<Longrightarrow> onsetTimesOf onsetStrength sr = []"
  by (auto simp: onsetTimesOf_def Let_def filter_empty_conv nth_zero)

lemma monoSignalOf_silent:
  assumes "silent b"
  shows "set (monoSignalOf b) \<subseteq> {0}"
proof -
  have "(\<Sum>ch\<leftarrow>[0..<getNumChannels b]. getSample b ch i) = 0" if "i < getNumSamples b" for i
    by (rule sum_list_zero) (use assms that in \<open>simp add: silent_def\<close>)
  then show ?thesis
    by (auto simp: monoSignalOf_def)
qed

lemma length_monoSignalOf [simp]: "length (monoSignalOf b) = getNumSamples b"
  by (simp add: monoSignalOf_def)

lemma frameEnergy_zero: "set monoSignal \<subseteq> {0} \<Longrightarrow> frameEnergy monoSignal start = 0"
  unfolding frameEnergy_def
proof (rule sum_list_zero)
  fix i :: nat
  assume z: "set monoSignal \<subseteq> {0}"
  show "(if start + int i \<ge> 0 \<and> start + int i < int (length monoSignal)
         then monoSignal ! nat (start + int i) * monoSignal ! nat (start + int i) else 0) = 0"
  proof (cases "start + int i \<ge> 0 \<and> start + int i < int (length monoSignal)")
    case True
    then have "nat (start + int i) < length monoSignal"
      by linarith
    then have "monoSignal ! nat (start + int i) = 0"
      using z by (rule nth_zero [rotated])
    then show ?thesis
      by simp
  next
    case False
    then show ?thesis
      by auto
  qed
qed

lemma energyOnsetsFrom_zero:
  "set monoSignal \<subseteq> {0} \<Longrightarrow> set (energyOnsetsFrom monoSignal pos) \<subseteq> {0}"
proof (induction monoSignal pos rule: energyOnsetsFrom.induct)
  case (1 monoSignal pos)
  show ?case
  proof (cases "int pos < int (length monoSignal) - 1024")
    case True
    then show ?thesis
      using 1 by (subst energyOnsetsFrom.simps) (simp add: frameEnergy_zero)
  next
    case False
    then show ?thesis
      by (subst energyOnsetsFrom.simps) simp
  qed
qed

lemma length_energyOnsetsFrom:
  "pos + 512 * k + 1024 < length monoSignal \<Longrightarrow> k < length (energyOnsetsFrom monoSignal pos)"
proof (induction k arbitrary: pos)
  case 0
  then show ?case
    by (subst energyOnsetsFrom.simps) simp
next
  case (Suc k)
  have "k < length (energyOnsetsFrom monoSignal (pos + 512))"
    using Suc.prems by (intro Suc.IH) simp
  then show ?case
    using Suc.prems by (subst energyOnsetsFrom.simps) simp
qed

text \<open>With no correlation above zero the lag search keeps \<open>bestLag = minLag\<close>.\<close>

lemma lagSearch_zero:
  "set onsetStrength \<subseteq> {0} \<Longrightarrow> 0 \<le> lag \<Longrightarrow> 0 \<le> bestCorr \<Longrightarrow>
   lagSearch onsetStrength maxLag lag bestCorr bestLag = bestLag"
proof (induction onsetStrength maxLag lag bestCorr bestLag rule: lagSearch.induct)
  case (1 onsetStrength maxLag lag bestCorr bestLag)
  have corr: "(\<Sum>i\<leftarrow>[0..<nat (int (length onsetStrength) - lag)].
                 onsetStrength ! i * onsetStrength ! nat (int i + lag)) = 0"
    by (rule sum_list_zero) (use 1(3,4) in \<open>simp add: nth_zero\<close>)
  show ?case
  proof (cases "lag < maxLag \<and> lag < int (length onsetStrength) div 2")
    case True
    then show ?thesis
      using 1 corr by (subst lagSearch.simps) (simp add: Let_def)
  next
    case False
    then show ?thesis
      by (subst lagSearch.simps) auto
  qed
qed

lemma silent_oneSecondSilence: "silent oneSecondSilence"
  by (simp add: silent_def oneSecondSilence_def getNumChannels_def getNumSamples_def
      getSample_def)

text \<open>
  C1 fails on the code. One second of mono silence at 44100 Hz loads; the onset stage finds
  no onset at all; the autocorrelation stage, run on the loaded track, returns 103.36 BPM,
  inside \<open>[60, 200]\<close>; the tempo assigned by the load is 120, the value the onset stage
  returns for "fewer than four onsets", which passes the range test that guards the
  fallback.
\<close>

theorem silence_is_not_passed_to_autocorrelation:
  "\<exists>t'. loadAudioFile fifoStretcher (Some (oneSecondSilence, 44100)) (newAudioTrack []) = Some t'
      \<and> length (onsetTimesOf (calculateOnsetStrength t') (sampleRate t')) < 4
      \<and> detectBPMAutocorrelation t' = Some (6615 / 64)
      \<and> \<not> outOfRange (6615 / 64)
      \<and> detectedBPM t' = 120"
proof -
  define u :: "real list AudioTrack"
    where "u = (newAudioTrack [])\<lparr>audioBuffer := oneSecondSilence, sampleRate := 44100\<rparr>"
  obtain t' where
    l: "loadAudioFile fifoStretcher (Some (oneSecondSilence, 44100)) (newAudioTrack []) = Some t'"
    and t': "t' = initializeSoundTouch fifoStretcher
       ((newAudioTrack [])\<lparr>audioBuffer := oneSecondSilence, sampleRate := 44100,
          currentPosition := 0, stretchRatio := 1, hasCustomLoopRegion := False,
          loopStartTime := 0, loopEndTime := 0, detectedBPM := detectBPMFromOnsets u\<rparr>)"
    by (simp add: loadAudioFile_Some u_def)
  have b: "audioBuffer t' = oneSecondSilence" "sampleRate t' = 44100"
    "detectedBPM t' = detectBPMFromOnsets u"
    by (simp_all add: t')
  have bu: "audioBuffer u = oneSecondSilence" "sampleRate u = 44100"
    by (simp_all add: u_def)
  have "set (calculateOnsetStrength t') \<subseteq> {0}"
    unfolding calculateOnsetStrength_def b
    by (rule onsetStrengthFrom_silent) (simp_all add: silent_oneSecondSilence)
  then have no_onsets: "onsetTimesOf (calculateOnsetStrength t') (sampleRate t') = []"
    by (rule onsetTimesOf_zero)
  have cu: "calculateOnsetStrength u = calculateOnsetStrength t'"
    by (rule calculateOnsetStrength_cong) (simp add: b bu)
  have d: "detectBPMFromOnsets u = 120"
    by (rule detectBPMFromOnsets_default) (simp add: cu bu no_onsets [unfolded b])
  have m: "set (monoSignalOf oneSecondSilence) \<subseteq> {0}"
    by (rule monoSignalOf_silent) (rule silent_oneSecondSilence)
  have n: "getNumSamples oneSecondSilence = 44100"
    by (simp add: oneSecondSilence_def getNumSamples_def)
  have e0: "set (energyOnsetsFrom (monoSignalOf oneSecondSilence) 0) \<subseteq> {0}"
    using m by (rule energyOnsetsFrom_zero)
  have e9: "9 < length (energyOnsetsFrom (monoSignalOf oneSecondSilence) 0)"
    by (rule length_energyOnsetsFrom) (simp add: n)
  have lag: "lagSearch (energyOnsetsFrom (monoSignalOf oneSecondSilence) 0) maxLag 25 0 25 = 25"
    for maxLag
    using e0 by (rule lagSearch_zero) simp_all
  have ou: "octaveUp (13230 / 64) = 13230 / 64"
    by (subst octaveUp.simps) simp
  have od: "octaveDown (13230 / 64) = 6615 / 64"
    by (subst octaveDown.simps, simp, subst octaveDown.simps, simp)
  have ci: "cast_int 44100 = 44100" "cast_int (60 * 44100 / (200 * 512)) = 25"
    by (simp_all add: cast_int_def)
  have bpm: "60 / (real_of_int 25 * 512 / 44100) = (13230 / 64 :: real)"
    by simp
  have ac: "detectBPMAutocorrelation t' = Some (6615 / 64)"
    unfolding detectBPMAutocorrelation_def Let_def b n ci lag bpm ou od
    using e9 by simp
  show ?thesis
    using l no_onsets ac b(3) d by (simp add: outOfRange_def)
qed


section \<open>The first loaded track sets the master tempo\<close>

lemma filter_upt_single:
  assumes "i < n" and "P i" and "\<forall>j<n. j \<noteq> i \<longrightarrow> \<not> P j"
  shows "filter P [0..<n] = [i]"
proof -
  have "[0..<i + (n - i)] = [0..<i] @ [i..<i + (n - i)]"
    by (rule upt_add_eq_append) simp
  then have "[0..<n] = [0..<i] @ [i..<n]"
    using assms(1) by simp
  then have split: "[0..<n] = [0..<i] @ i # [Suc i..<n]"
    using assms(1) by (simp add: upt_conv_Cons)
  have a: "filter P [0..<i] = []"
    using assms by (auto simp: filter_empty_conv)
  have b: "filter P [Suc i..<n] = []"
    using assms by (auto simp: filter_empty_conv)
  show ?thesis
    by (simp add: split a b assms(2))
qed

text \<open>What \<open>onTrackLoaded\<close> does when track \<open>i\<close> is the only loaded track.\<close>

lemma onTrackLoaded_only_track:
  assumes i: "i < length (audioTracks s)"
    and others: "\<forall>j < length (audioTracks s). j \<noteq> i \<longrightarrow> \<not> isLoaded (audioTracks s ! j)"
    and loaded: "isLoaded (audioTracks s ! i)"
    and pos: "0 < trackBPM"
  shows "onTrackLoaded trackBPM s = setInitialMasterBPM trackBPM (Some i) s"
proof -
  have "filter (\<lambda>j. isLoaded (audioTracks s ! j)) [0..<length (audioTracks s)] = [i]"
    using i loaded others by (rule filter_upt_single)
  then show ?thesis
    using pos by (simp add: onTrackLoaded_def Let_def)
qed

lemma setInitialMasterBPM_effect:
  assumes i: "i < length (audioTracks s)"
  shows "masterTempo (setInitialMasterBPM bpm (Some i) s) = bpm"
    and "previousMasterTempo (setInitialMasterBPM bpm (Some i) s) = masterTempo s"
    and "length (audioTracks (setInitialMasterBPM bpm (Some i) s)) = length (audioTracks s)"
    and "stretchRatio (audioTracks (setInitialMasterBPM bpm (Some i) s) ! i)
           = (if \<bar>1 - stretchRatio (audioTracks s ! i)\<bar> > 0.001 then 1
              else stretchRatio (audioTracks s ! i))"
    and "detectedBPM (audioTracks (setInitialMasterBPM bpm (Some i) s) ! i)
           = detectedBPM (audioTracks s ! i)"
    and "isLoaded (audioTracks (setInitialMasterBPM bpm (Some i) s) ! i)
           = isLoaded (audioTracks s ! i)"
    and "\<forall>j < length (audioTracks s).
           masterBPM (audioTracks (setInitialMasterBPM bpm (Some i) s) ! j) = bpm"
    and "\<forall>j < length (audioTracks s). j \<noteq> i \<longrightarrow>
           stretchRatio (audioTracks (setInitialMasterBPM bpm (Some i) s) ! j)
             = stretchRatio (audioTracks s ! j)"
  using i
  by (simp_all add: setInitialMasterBPM_def setMasterBPM_def setStretchRatio_def jlimit_def
      isLoaded_def)

text \<open>
  C8. Let track \<open>i\<close> be the only loaded track of the session. Then \<open>onTrackLoaded\<close> with a
  positive tempo sets the master tempo to that tempo and the previous master tempo to the
  old one, without rescaling: it sets the stretch ratio of track \<open>i\<close> to 1.0 (from any
  value further than the dead band of 0.001 from it), gives every track the new tempo as
  its master-BPM reference, and leaves the stretch ratio of every other track as it was.
  The completion of a load into track \<open>i\<close> with a non-empty buffer returns and does all
  that with the tempo detected for the track, which is positive, and leaves the stretch
  ratio of track \<open>i\<close> at exactly 1.0.
\<close>

theorem first_track_defines_master_tempo:
  assumes i: "i < length (audioTracks s)"
    and others: "\<forall>j < length (audioTracks s). j \<noteq> i \<longrightarrow> \<not> isLoaded (audioTracks s ! j)"
  shows "(isLoaded (audioTracks s ! i) \<and> 0 < trackBPM \<longrightarrow>
            masterTempo (onTrackLoaded trackBPM s) = trackBPM
            \<and> previousMasterTempo (onTrackLoaded trackBPM s) = masterTempo s
            \<and> length (audioTracks (onTrackLoaded trackBPM s)) = length (audioTracks s)
            \<and> stretchRatio (audioTracks (onTrackLoaded trackBPM s) ! i)
                = (if \<bar>1 - stretchRatio (audioTracks s ! i)\<bar> > 0.001 then 1
                   else stretchRatio (audioTracks s ! i))
            \<and> (\<forall>j < length (audioTracks s).
                  masterBPM (audioTracks (onTrackLoaded trackBPM s) ! j) = trackBPM)
            \<and> (\<forall>j < length (audioTracks s). j \<noteq> i \<longrightarrow>
                  stretchRatio (audioTracks (onTrackLoaded trackBPM s) ! j)
                    = stretchRatio (audioTracks s ! j)))
       \<and> (getNumSamples decoded > 0 \<longrightarrow>
            (\<exists>s'. loadButtonClicked ops i (Some (decoded, rate)) s = Some s'
               \<and> length (audioTracks s') = length (audioTracks s)
               \<and> isLoaded (audioTracks s' ! i)
               \<and> 0 < detectedBPM (audioTracks s' ! i)
               \<and> masterTempo s' = detectedBPM (audioTracks s' ! i)
               \<and> previousMasterTempo s' = masterTempo s
               \<and> stretchRatio (audioTracks s' ! i) = 1
               \<and> (\<forall>j < length (audioTracks s).
                     masterBPM (audioTracks s' ! j) = masterTempo s')
               \<and> (\<forall>j < length (audioTracks s). j \<noteq> i \<longrightarrow>
                     stretchRatio (audioTracks s' ! j) = stretchRatio (audioTracks s ! j))))"
proof (rule conjI [OF impI impI])
  assume a: "isLoaded (audioTracks s ! i) \<and> 0 < trackBPM"
  then have otl: "onTrackLoaded trackBPM s = setInitialMasterBPM trackBPM (Some i) s"
    using onTrackLoaded_only_track [OF i others] by simp
  show "masterTempo (onTrackLoaded trackBPM s) = trackBPM
            \<and> previousMasterTempo (onTrackLoaded trackBPM s) = masterTempo s
            \<and> length (audioTracks (onTrackLoaded trackBPM s)) = length (audioTracks s)
            \<and> stretchRatio (audioTracks (onTrackLoaded trackBPM s) ! i)
                = (if \<bar>1 - stretchRatio (audioTracks s ! i)\<bar> > 0.001 then 1
                   else stretchRatio (audioTracks s ! i))
            \<and> (\<forall>j < length (audioTracks s).
                  masterBPM (audioTracks (onTrackLoaded trackBPM s) ! j) = trackBPM)
            \<and> (\<forall>j < length (audioTracks s). j \<noteq> i \<longrightarrow>
                  stretchRatio (audioTracks (onTrackLoaded trackBPM s) ! j)
                    = stretchRatio (audioTracks s ! j))"
    unfolding otl using setInitialMasterBPM_effect [OF i, of trackBPM] by blast
next
  assume loaded: "getNumSamples decoded > 0"
  define t where "t = audioTracks s ! i"
  define bpm where "bpm = detectBPMFromOnsets (t\<lparr>audioBuffer := decoded, sampleRate := rate\<rparr>)"
  define t' where "t' = initializeSoundTouch ops
       (t\<lparr>audioBuffer := decoded, sampleRate := rate, currentPosition := 0,
          stretchRatio := 1, hasCustomLoopRegion := False, loopStartTime := 0, loopEndTime := 0,
          detectedBPM := bpm\<rparr>)"
  define s1 where "s1 = s\<lparr>audioTracks := (audioTracks s)[i := t']\<rparr>"
  have l: "loadAudioFile ops (Some (decoded, rate)) (audioTracks s ! i) = Some t'"
    by (simp add: loadAudioFile_Some t'_def bpm_def t_def)
  have pos: "0 < bpm"
    using detectBPMFromOnsets_range [of "t\<lparr>audioBuffer := decoded, sampleRate := rate\<rparr>"]
    by (simp add: bpm_def)
  have t'f: "detectedBPM t' = bpm" "stretchRatio t' = 1" "isLoaded t'"
    using loaded by (simp_all add: t'_def isLoaded_def)
  have i1: "i < length (audioTracks s1)"
    using i by (simp add: s1_def)
  have o1: "\<forall>j < length (audioTracks s1). j \<noteq> i \<longrightarrow> \<not> isLoaded (audioTracks s1 ! j)"
    using others by (simp add: s1_def)
  have at: "audioTracks s1 ! i = t'"
    using i by (simp add: s1_def)
  have aj: "\<forall>j < length (audioTracks s). j \<noteq> i \<longrightarrow> audioTracks s1 ! j = audioTracks s ! j"
    by (simp add: s1_def)
  have ls: "length (audioTracks s1) = length (audioTracks s)" "masterTempo s1 = masterTempo s"
    by (simp_all add: s1_def)
  have otl: "onTrackLoaded bpm s1 = setInitialMasterBPM bpm (Some i) s1"
    using onTrackLoaded_only_track [OF i1 o1] t'f(3) pos by (simp add: at)
  have lb: "loadButtonClicked ops i (Some (decoded, rate)) s
              = Some (setInitialMasterBPM bpm (Some i) s1)"
    using l pos by (simp add: loadButtonClicked_def Let_def t'f otl s1_def [symmetric])
  define s' where "s' = setInitialMasterBPM bpm (Some i) s1"
  note e = setInitialMasterBPM_effect [OF i1, of bpm, folded s'_def, unfolded at t'f ls]
  have keep: "\<forall>j < length (audioTracks s). j \<noteq> i \<longrightarrow>
                stretchRatio (audioTracks s' ! j) = stretchRatio (audioTracks s ! j)"
    using e(8) aj by simp
  have "loadButtonClicked ops i (Some (decoded, rate)) s = Some s'
               \<and> length (audioTracks s') = length (audioTracks s)
               \<and> isLoaded (audioTracks s' ! i)
               \<and> 0 < detectedBPM (audioTracks s' ! i)
               \<and> masterTempo s' = detectedBPM (audioTracks s' ! i)
               \<and> previousMasterTempo s' = masterTempo s
               \<and> stretchRatio (audioTracks s' ! i) = 1
               \<and> (\<forall>j < length (audioTracks s).
                     masterBPM (audioTracks s' ! j) = masterTempo s')
               \<and> (\<forall>j < length (audioTracks s). j \<noteq> i \<longrightarrow>
                     stretchRatio (audioTracks s' ! j) = stretchRatio (audioTracks s ! j))"
    using lb e(1-7) keep pos t'f(3) by (simp add: s'_def)
  then show "\<exists>s'. loadButtonClicked ops i (Some (decoded, rate)) s = Some s'
               \<and> length (audioTracks s') = length (audioTracks s)
               \<and> isLoaded (audioTracks s' ! i)
               \<and> 0 < detectedBPM (audioTracks s' ! i)
               \<and> masterTempo s' = detectedBPM (audioTracks s' ! i)
               \<and> previousMasterTempo s' = masterTempo s
               \<and> stretchRatio (audioTracks s' ! i) = 1
               \<and> (\<forall>j < length (audioTracks s).
                     masterBPM (audioTracks s' ! j) = masterTempo s')
               \<and> (\<forall>j < length (audioTracks s). j \<noteq> i \<longrightarrow>
                     stretchRatio (audioTracks s' ! j) = stretchRatio (audioTracks s ! j))"
    by (rule exI)
qed

text \<open>
  On the used session (master tempo 90, an empty track at ratio 2, the loaded track at
  ratio 3): the report of a tempo of 100 for the loaded track, and a new load into it.
\<close>

theorem first_track_defines_master_tempo_witness:
  "map stretchRatio (audioTracks usedSession) = [2, 3]
   \<and> map masterBPM (audioTracks usedSession) = [90, 90]
   \<and> masterTempo usedSession = 90
   \<and> masterTempo (onTrackLoaded 100 usedSession) = 100
   \<and> previousMasterTempo (onTrackLoaded 100 usedSession) = 90
   \<and> stretchRatio (audioTracks (onTrackLoaded 100 usedSession) ! 1) = 1
   \<and> stretchRatio (audioTracks (onTrackLoaded 100 usedSession) ! 0) = 2
   \<and> masterBPM (audioTracks (onTrackLoaded 100 usedSession) ! 0) = 100
   \<and> masterBPM (audioTracks (onTrackLoaded 100 usedSession) ! 1) = 100
   \<and> (\<exists>s'. loadButtonClicked fifoStretcher 1
               (Some (\<lparr>channelData = [replicate 16 (1 / 2)], numFrames = 16\<rparr>, 8000))
               usedSession = Some s'
          \<and> masterTempo s' = detectedBPM (audioTracks s' ! 1)
          \<and> previousMasterTempo s' = 90
          \<and> stretchRatio (audioTracks s' ! 1) = 1
          \<and> stretchRatio (audioTracks s' ! 0) = 2
          \<and> masterBPM (audioTracks s' ! 0) = masterTempo s'
          \<and> masterBPM (audioTracks s' ! 1) = masterTempo s')"
proof -
  have i: "1 < length (audioTracks usedSession)"
    by (simp add: example_defs)
  have others: "\<forall>j < length (audioTracks usedSession). j \<noteq> 1 \<longrightarrow>
                  \<not> isLoaded (audioTracks usedSession ! j)"
    by (auto simp: example_defs ratio_defs less_Suc_eq)
  have before: "map stretchRatio (audioTracks usedSession) = [2, 3]"
    "map masterBPM (audioTracks usedSession) = [90, 90]"
    "masterTempo usedSession = 90"
    "isLoaded (audioTracks usedSession ! 1)"
    "stretchRatio (audioTracks usedSession ! 1) = 3"
    "stretchRatio (audioTracks usedSession ! 0) = 2"
    "length (audioTracks usedSession) = 2"
    by (simp_all add: example_defs ratio_defs)
  have loaded: "getNumSamples \<lparr>channelData = [replicate 16 (1 / 2)], numFrames = 16\<rparr> > 0"
    by (simp add: getNumSamples_def)
  have two: "\<And>P. (\<forall>j < (2::nat). P j) = (P 0 \<and> P 1)"
    by (auto simp: less_2_cases_iff)
  show ?thesis
    using first_track_defines_master_tempo
            [OF i others, of 100 "\<lparr>channelData = [replicate 16 (1 / 2)], numFrames = 16\<rparr>"
               fifoStretcher 8000]
      before loaded
    by (simp add: two) blast
qed


section \<open>The audio callback and the play position\<close>

lemma currentPlayPosition_metronomeStep [simp]:
  "currentPlayPosition (fst (metronomeStep sample sb)) = currentPlayPosition (fst sb)"
  by (simp add: metronomeStep_def Let_def)

lemma currentPlayPosition_fold_metronomeStep:
  "currentPlayPosition (fst (fold metronomeStep samples sb)) = currentPlayPosition (fst sb)"
  by (induction samples arbitrary: sb) simp_all

lemma currentPlayPosition_processMetronome [simp]:
  "currentPlayPosition (fst (processMetronome s buffer numSamples)) = currentPlayPosition s"
  by (simp add: processMetronome_def currentPlayPosition_fold_metronomeStep)

text \<open>
  A call of \<open>getNextAudioBlock\<close> while the session is not playing leaves the session as it
  was (so every track position and the play position are unchanged) and returns the buffer
  with every frame of the region to fill at zero, in every channel.
\<close>

lemma callback_silent_when_stopped:
  assumes "\<not> isPlaying s"
  shows "fst (getNextAudioBlock ops s bufferToFill) = s"
    and "map length (channelData (snd (getNextAudioBlock ops s bufferToFill)))
           = map length (channelData (infoBuffer bufferToFill))"
    and "\<forall>c \<in> set (channelData (snd (getNextAudioBlock ops s bufferToFill))).
           \<forall>i < length c.
             infoStartSample bufferToFill \<le> int i
             \<and> int i < infoStartSample bufferToFill + infoNumSamples bufferToFill
             \<longrightarrow> c ! i = 0"
  using assms
  by (auto simp: getNextAudioBlock_def Let_def clearActiveBufferRegion_def clearRegion_def
      comp_def)

text \<open>
  While the session is playing, the play position moves on by the frame count over the
  constant 44100, whatever rate the host has announced.
\<close>

lemma callback_play_position:
  "isPlaying s \<Longrightarrow>
   currentPlayPosition (fst (getNextAudioBlock ops (prepareToPlay blockSize deviceRate s)
                               bufferToFill))
     = currentPlayPosition s + real_of_int (infoNumSamples bufferToFill) / 44100"
  by (simp add: getNextAudioBlock_def prepareToPlay_def Let_def)

text \<open>
  C7 fails on the code in its last part. A playing session prepared by the host for a
  device at 48000 Hz is called for a block of 480 frames, which is 1/100 s of output; the
  play position moves from 0 to 480/44100 s.
\<close>

theorem play_position_ignores_device_rate:
  "currentPlayPosition (oneTrackSession\<lparr>isPlaying := True\<rparr>) = 0
   \<and> currentPlayPosition
         (fst (getNextAudioBlock fifoStretcher
                 (prepareToPlay 480 48000 (oneTrackSession\<lparr>isPlaying := True\<rparr>))
                 \<lparr>infoBuffer = \<lparr>channelData = [replicate 480 0, replicate 480 0],
                                 numFrames = 480\<rparr>,
                  infoStartSample = 0, infoNumSamples = 480\<rparr>))
       = 480 / 44100
   \<and> (480 / 44100 :: real) \<noteq> 480 / 48000"
proof -
  have p: "isPlaying (oneTrackSession\<lparr>isPlaying := True\<rparr>)"
    and z: "currentPlayPosition (oneTrackSession\<lparr>isPlaying := True\<rparr>) = 0"
    by (simp_all add: example_defs)
  have "currentPlayPosition
         (fst (getNextAudioBlock fifoStretcher
                 (prepareToPlay 480 48000 (oneTrackSession\<lparr>isPlaying := True\<rparr>))
                 \<lparr>infoBuffer = \<lparr>channelData = [replicate 480 0, replicate 480 0],
                                 numFrames = 480\<rparr>,
                  infoStartSample = 0, infoNumSamples = 480\<rparr>))
       = currentPlayPosition (oneTrackSession\<lparr>isPlaying := True\<rparr>)
           + real_of_int (infoNumSamples
               \<lparr>infoBuffer = \<lparr>channelData = [replicate 480 0, replicate 480 0],
                                numFrames = 480\<rparr>,
                 infoStartSample = 0, infoNumSamples = 480\<rparr>) / 44100"
    using p by (rule callback_play_position)
  then show ?thesis
    using z by simp
qed


section \<open>Reads stay inside the loop region\<close>

lemma cast_int_mono:
  assumes xy: "x \<le> y"
  shows "cast_int x \<le> cast_int y"
proof (cases "0 \<le> x")
  case True
  then show ?thesis
    using xy by (simp add: cast_int_def floor_mono)
next
  case False
  show ?thesis
  proof (cases "0 \<le> y")
    case True
    have "\<lceil>x\<rceil> \<le> 0" using False by linarith
    moreover have "0 \<le> \<lfloor>y\<rfloor>" using True by simp
    ultimately have "\<lceil>x\<rceil> \<le> \<lfloor>y\<rfloor>"
      by linarith
    then show ?thesis
      using False True by (simp add: cast_int_def)
  next
    case False
    then show ?thesis
      using \<open>\<not> 0 \<le> x\<close> xy by (simp add: cast_int_def ceiling_mono)
  qed
qed

lemma confined_soundTouch [simp]:
  "confined S E base (t\<lparr>soundTouch := st\<rparr>) = confined S E base t"
  by (simp add: confined_def)

lemma confined_bounds:
  assumes "confined S E base t" "S < E"
  shows "loopStartOf t = S" "loopEndOf t = E"
    "loopStartSampleOf t = cast_int (S * sampleRate base)"
    "loopEndSampleOf t = min (cast_int (E * sampleRate base)) (int (getNumSamples (audioBuffer base)))"
  using assms
  by (simp_all add: confined_def loopStartOf_def loopEndOf_def loopStartSampleOf_def
      loopEndSampleOf_def)

lemma loopEntry_confined:
  assumes c: "confined S E base t" and se: "S < E" and sr: "0 < sampleRate base"
    and len: "loopStartSampleOf t < loopEndSampleOf t"
    and le: "loopEntry clear t = Some (cs, t1)"
  shows "loopStartSampleOf t \<le> cs \<and> cs < loopEndSampleOf t
         \<and> confined S E base (t1\<lparr>currentPosition := currentPosition t\<rparr>)
         \<and> (\<not> looping t \<longrightarrow> currentPosition t1 = currentPosition t)"
proof (cases "looping t")
  case True
  define L where "L = loopStartSampleOf t"
  define R where "R = loopEndSampleOf t"
  define x where "x = cast_int (currentPosition t * sampleRate t)"
  have "(x - L) mod (R - L) < R - L"
    using len by (simp add: L_def R_def)
  then have m: "L + (x - L) mod (R - L) < R"
    by linarith
  have cs: "L \<le> cs \<and> cs < R"
    using le True m len unfolding loopEntry_def Let_def L_def [symmetric] R_def [symmetric]
      x_def [symmetric]
    by (auto split: if_splits)
  have "confined S E base (t1\<lparr>currentPosition := currentPosition t\<rparr>)"
    using le True c unfolding loopEntry_def Let_def
    by (auto simp: confined_def split: if_splits)
  then show ?thesis
    using cs True by (simp add: L_def R_def)
next
  case False
  have "S * sampleRate base \<le> currentPosition t * sampleRate base"
    using c False sr by (simp add: confined_def)
  then have "cast_int (S * sampleRate base) \<le> cast_int (currentPosition t * sampleRate t)"
    using c by (simp add: cast_int_mono confined_def)
  then show ?thesis
    using le False c confined_bounds(3) [OF c se] unfolding loopEntry_def Let_def
    by (auto simp: confined_def split: if_splits)
qed


lemma processDirectPlayback_cases:
  assumes r: "processDirectPlayback t buffer startSample numSamples = (t', out, reads)"
  shows "(reads = [] \<and> t' = t)
       \<or> (\<exists>cs. reads = [] \<and> loopStartSampleOf t < loopEndSampleOf t
              \<and> loopEntry (\<lambda>st. st) t = Some (cs, t'))
       \<or> (\<exists>cs t1 n. loopStartSampleOf t < loopEndSampleOf t
              \<and> loopEntry (\<lambda>st. st) t = Some (cs, t1)
              \<and> n = min numSamples (loopEndSampleOf t - cs) \<and> 0 < n
              \<and> reads = [(cs, n)]
              \<and> t' = t1\<lparr>currentPosition :=
                         if looping t \<and> currentPosition t1 + real_of_int n / sampleRate t \<ge> loopEndOf t
                         then loopStartOf t
                         else currentPosition t1 + real_of_int n / sampleRate t\<rparr>)"
proof (cases "loopEndSampleOf t - loopStartSampleOf t \<le> 0")
  case True
  then have "reads = [] \<and> t' = t"
    using r unfolding processDirectPlayback_def by simp
  then show ?thesis by blast
next
  case len: False
  show ?thesis
  proof (cases "loopEntry (\<lambda>st. st) t")
    case None
    then have "reads = [] \<and> t' = t"
      using r len unfolding processDirectPlayback_def by simp
    then show ?thesis by blast
  next
    case (Some p)
    obtain cs t1 where p: "p = (cs, t1)" by (cases p)
    define n where "n = min numSamples (loopEndSampleOf t - cs)"
    show ?thesis
    proof (cases "n \<le> 0")
      case True
      then have "reads = [] \<and> t' = t1"
        using r len Some p unfolding processDirectPlayback_def Let_def n_def by simp
      then show ?thesis using len Some p by auto
    next
      case False
      have h: "reads = [(cs, n)] \<and> t' = t1\<lparr>currentPosition :=
                         if looping t \<and> currentPosition t1 + real_of_int n / sampleRate t \<ge> loopEndOf t
                         then loopStartOf t
                         else currentPosition t1 + real_of_int n / sampleRate t\<rparr>"
        using r len Some p False unfolding processDirectPlayback_def Let_def n_def
        by (auto split: if_splits)
      have "\<exists>cs t1 n. loopStartSampleOf t < loopEndSampleOf t
              \<and> loopEntry (\<lambda>st. st) t = Some (cs, t1)
              \<and> n = min numSamples (loopEndSampleOf t - cs) \<and> 0 < n
              \<and> reads = [(cs, n)]
              \<and> t' = t1\<lparr>currentPosition :=
                         if looping t \<and> currentPosition t1 + real_of_int n / sampleRate t \<ge> loopEndOf t
                         then loopStartOf t
                         else currentPosition t1 + real_of_int n / sampleRate t\<rparr>"
        apply (rule exI [of _ cs], rule exI [of _ t1], rule exI [of _ n])
        using len Some p False h n_def by auto
      then show ?thesis by (rule disjI2 [OF disjI2])
    qed
  qed
qed

lemma fields_setTempo_track [simp]:
  "loopStartSampleOf (t\<lparr>soundTouch := st\<rparr>) = loopStartSampleOf t"
  "loopEndSampleOf (t\<lparr>soundTouch := st\<rparr>) = loopEndSampleOf t"
  "loopStartOf (t\<lparr>soundTouch := st\<rparr>) = loopStartOf t"
  "loopEndOf (t\<lparr>soundTouch := st\<rparr>) = loopEndOf t"
  by (simp_all add: loopStartSampleOf_def loopEndSampleOf_def loopStartOf_def loopEndOf_def
      getDurationInSeconds_def)

lemma processWithSoundTouch_cases:
  assumes r: "processWithSoundTouch ops t buffer startSample numSamples = (t', out, reads)"
  shows "(\<exists>st. reads = [] \<and> t' = t\<lparr>soundTouch := st\<rparr>)
       \<or> (\<exists>cs st. reads = [] \<and> loopStartSampleOf t < loopEndSampleOf t
              \<and> loopEntry (st_clear ops) (t\<lparr>soundTouch := st\<rparr>) = Some (cs, t'))
       \<or> (\<exists>cs t1 n st st'. loopStartSampleOf t < loopEndSampleOf t
              \<and> loopEntry (st_clear ops) (t\<lparr>soundTouch := st\<rparr>) = Some (cs, t1)
              \<and> n = min (numSamples * 2) (loopEndSampleOf t - cs) \<and> 0 < n
              \<and> reads = [(cs, n)]
              \<and> t' = t1\<lparr>currentPosition :=
                         if looping t \<and> currentPosition t1 + real_of_int n / sampleRate t \<ge> loopEndOf t
                         then loopStartOf t
                         else currentPosition t1 + real_of_int n / sampleRate t,
                       soundTouch := st'\<rparr>)"
proof -
  define st where "st = st_setTempo ops (stretchRatio t) (soundTouch t)"
  show ?thesis
  proof (cases "loopEndSampleOf t - loopStartSampleOf t \<le> 0")
    case True
    then have "reads = [] \<and> t' = t\<lparr>soundTouch := st\<rparr>"
      using r unfolding processWithSoundTouch_def Let_def st_def by simp
    then show ?thesis by blast
  next
    case len: False
    show ?thesis
    proof (cases "loopEntry (st_clear ops) (t\<lparr>soundTouch := st\<rparr>)")
      case None
      then have "reads = [] \<and> t' = t\<lparr>soundTouch := st\<rparr>"
        using r len unfolding processWithSoundTouch_def Let_def st_def by simp
      then show ?thesis by blast
    next
      case (Some p)
      obtain cs t1 where p: "p = (cs, t1)" by (cases p)
      define n where "n = min (numSamples * 2) (loopEndSampleOf t - cs)"
      show ?thesis
      proof (cases "n \<le> 0")
        case True
        then have "reads = [] \<and> t' = t1"
          using r len Some p unfolding processWithSoundTouch_def Let_def st_def n_def by simp
        then show ?thesis using len Some p by auto
      next
        case False
        have "\<exists>st'. reads = [(cs, n)] \<and> t' = t1\<lparr>currentPosition :=
                         if looping t \<and> currentPosition t1 + real_of_int n / sampleRate t \<ge> loopEndOf t
                         then loopStartOf t
                         else currentPosition t1 + real_of_int n / sampleRate t,
                       soundTouch := st'\<rparr>"
          using r len Some p False unfolding processWithSoundTouch_def Let_def st_def n_def
          by (auto split: if_splits)
        then obtain st' where h: "reads = [(cs, n)]"
          "t' = t1\<lparr>currentPosition :=
                         if looping t \<and> currentPosition t1 + real_of_int n / sampleRate t \<ge> loopEndOf t
                         then loopStartOf t
                         else currentPosition t1 + real_of_int n / sampleRate t,
                       soundTouch := st'\<rparr>"
          by blast
        have "\<exists>cs t1 n st st'. loopStartSampleOf t < loopEndSampleOf t
              \<and> loopEntry (st_clear ops) (t\<lparr>soundTouch := st\<rparr>) = Some (cs, t1)
              \<and> n = min (numSamples * 2) (loopEndSampleOf t - cs) \<and> 0 < n
              \<and> reads = [(cs, n)]
              \<and> t' = t1\<lparr>currentPosition :=
                         if looping t \<and> currentPosition t1 + real_of_int n / sampleRate t \<ge> loopEndOf t
                         then loopStartOf t
                         else currentPosition t1 + real_of_int n / sampleRate t,
                       soundTouch := st'\<rparr>"
          apply (rule exI [of _ cs], rule exI [of _ t1], rule exI [of _ n], rule exI [of _ st],
              rule exI [of _ st'])
          using len Some p False h n_def by simp
        then show ?thesis by (rule disjI2 [OF disjI2])
      qed
    qed
  qed
qed


lemma confined_after_entry:
  assumes c: "confined S E base t" and se: "S < E" and sr: "0 < sampleRate base"
    and len: "loopStartSampleOf t < loopEndSampleOf t"
    and le: "loopEntry clear t = Some (cs, t1)"
  shows "confined S E base t1"
proof -
  have a: "confined S E base (t1\<lparr>currentPosition := currentPosition t\<rparr>)"
    and b: "\<not> looping t \<longrightarrow> currentPosition t1 = currentPosition t"
    using loopEntry_confined [OF c se sr len le] by simp_all
  show ?thesis
    using a b c by (auto simp: confined_def)
qed

lemma confined_after_advance:
  assumes c: "confined S E base t" and se: "S < E" and sr: "0 < sampleRate base"
    and len: "loopStartSampleOf t < loopEndSampleOf t"
    and le: "loopEntry clear t = Some (cs, t1)" and n: "0 < n"
  shows "confined S E base
           (t1\<lparr>currentPosition :=
                 if looping t \<and> currentPosition t1 + real_of_int n / sampleRate t \<ge> loopEndOf t
                 then loopStartOf t
                 else currentPosition t1 + real_of_int n / sampleRate t\<rparr>)"
proof -
  have a: "confined S E base (t1\<lparr>currentPosition := currentPosition t\<rparr>)"
    and b: "\<not> looping t \<longrightarrow> currentPosition t1 = currentPosition t"
    using loopEntry_confined [OF c se sr len le] by simp_all
  have "0 \<le> real_of_int n / sampleRate t"
    using n sr c by (simp add: confined_def)
  then show ?thesis
    using a b c by (auto simp: confined_def)
qed

lemma read_inside:
  assumes c: "confined S E base t" and se: "S < E" and sr: "0 < sampleRate base"
    and len: "loopStartSampleOf t < loopEndSampleOf t"
    and le: "loopEntry clear t = Some (cs, t1)"
    and n: "n = min m (loopEndSampleOf t - cs)"
  shows "cast_int (S * sampleRate base) \<le> cs
       \<and> cs + n \<le> cast_int (E * sampleRate base)
       \<and> cs + n \<le> int (getNumSamples (audioBuffer base))"
  using loopEntry_confined [OF c se sr len le] confined_bounds(3,4) [OF c se] n
  by auto

lemma processDirectPlayback_confined:
  assumes c: "confined S E base t" and se: "S < E" and sr: "0 < sampleRate base"
    and r: "processDirectPlayback t buffer startSample numSamples = (t', out, reads)"
  shows "confined S E base t'
       \<and> (\<forall>(first, count) \<in> set reads.
            cast_int (S * sampleRate base) \<le> first \<and> 0 < count
            \<and> first + count \<le> cast_int (E * sampleRate base)
            \<and> first + count \<le> int (getNumSamples (audioBuffer base)))"
  using processDirectPlayback_cases [OF r]
proof (elim disjE exE conjE)
  assume "reads = []" "t' = t"
  then show ?thesis using c by simp
next
  fix cs
  assume "reads = []" "loopStartSampleOf t < loopEndSampleOf t"
    "loopEntry (\<lambda>st. st) t = Some (cs, t')"
  then show ?thesis using confined_after_entry [OF c se sr] by simp
next
  fix cs t1 n
  assume len: "loopStartSampleOf t < loopEndSampleOf t"
    and le: "loopEntry (\<lambda>st. st) t = Some (cs, t1)"
    and n: "n = min numSamples (loopEndSampleOf t - cs)" "0 < n"
    and rd: "reads = [(cs, n)]"
    and t': "t' = t1\<lparr>currentPosition :=
                 if looping t \<and> currentPosition t1 + real_of_int n / sampleRate t \<ge> loopEndOf t
                 then loopStartOf t
                 else currentPosition t1 + real_of_int n / sampleRate t\<rparr>"
  have "confined S E base t'"
    unfolding t' using c se sr len le n(2) by (rule confined_after_advance)
  then show ?thesis
    using read_inside [OF c se sr len le n(1)] n(2) rd by simp
qed

lemma processWithSoundTouch_confined:
  assumes c: "confined S E base t" and se: "S < E" and sr: "0 < sampleRate base"
    and r: "processWithSoundTouch ops t buffer startSample numSamples = (t', out, reads)"
  shows "confined S E base t'
       \<and> (\<forall>(first, count) \<in> set reads.
            cast_int (S * sampleRate base) \<le> first \<and> 0 < count
            \<and> first + count \<le> cast_int (E * sampleRate base)
            \<and> first + count \<le> int (getNumSamples (audioBuffer base)))"
  using processWithSoundTouch_cases [OF r]
proof (elim disjE exE conjE)
  fix st
  assume "reads = []" "t' = t\<lparr>soundTouch := st\<rparr>"
  then show ?thesis using c by simp
next
  fix cs st
  assume a: "reads = []" "loopStartSampleOf t < loopEndSampleOf t"
    "loopEntry (st_clear ops) (t\<lparr>soundTouch := st\<rparr>) = Some (cs, t')"
  have c0: "confined S E base (t\<lparr>soundTouch := st\<rparr>)" using c by simp
  show ?thesis using confined_after_entry [OF c0 se sr _ a(3)] a(1,2) by simp
next
  fix cs t1 n st st'
  assume len: "loopStartSampleOf t < loopEndSampleOf t"
    and le: "loopEntry (st_clear ops) (t\<lparr>soundTouch := st\<rparr>) = Some (cs, t1)"
    and n: "n = min (numSamples * 2) (loopEndSampleOf t - cs)" "0 < n"
    and rd: "reads = [(cs, n)]"
    and t': "t' = t1\<lparr>currentPosition :=
                 if looping t \<and> currentPosition t1 + real_of_int n / sampleRate t \<ge> loopEndOf t
                 then loopStartOf t
                 else currentPosition t1 + real_of_int n / sampleRate t,
               soundTouch := st'\<rparr>"
  have c0: "confined S E base (t\<lparr>soundTouch := st\<rparr>)" using c by simp
  have len0: "loopStartSampleOf (t\<lparr>soundTouch := st\<rparr>) < loopEndSampleOf (t\<lparr>soundTouch := st\<rparr>)"
    using len by simp
  have "confined S E base
           (t1\<lparr>currentPosition :=
                 if looping (t\<lparr>soundTouch := st\<rparr>) \<and> currentPosition t1 + real_of_int n / sampleRate (t\<lparr>soundTouch := st\<rparr>) \<ge> loopEndOf (t\<lparr>soundTouch := st\<rparr>)
                 then loopStartOf (t\<lparr>soundTouch := st\<rparr>)
                 else currentPosition t1 + real_of_int n / sampleRate (t\<lparr>soundTouch := st\<rparr>)\<rparr>)"
    using c0 se sr len0 le n(2) by (rule confined_after_advance)
  then have "confined S E base t'"
    unfolding t' by (simp cong: if_cong)
  moreover have "n = min (numSamples * 2) (loopEndSampleOf (t\<lparr>soundTouch := st\<rparr>) - cs)"
    using n(1) by simp
  ultimately show ?thesis
    using read_inside [OF c0 se sr len0 le] n(2) rd by simp
qed

lemma processBlock_confined:
  assumes c: "confined S E base t" and se: "S < E" and sr: "0 < sampleRate base"
    and r: "processBlock ops t buffer startSample numSamples = (t', out, reads)"
  shows "confined S E base t'
       \<and> (\<forall>(first, count) \<in> set reads.
            cast_int (S * sampleRate base) \<le> first \<and> 0 < count
            \<and> first + count \<le> cast_int (E * sampleRate base)
            \<and> first + count \<le> int (getNumSamples (audioBuffer base)))"
proof (cases "reads = [] \<and> t' = t")
  case True
  then show ?thesis using c by simp
next
  case False
  then consider "processDirectPlayback t buffer startSample numSamples = (t', out, reads)"
    | "processWithSoundTouch ops t buffer startSample numSamples = (t', out, reads)"
    using r unfolding processBlock_def by (auto split: if_splits)
  then show ?thesis
  proof cases
    case 1
    then show ?thesis using processDirectPlayback_confined [OF c se sr] by simp
  next
    case 2
    then show ?thesis using processWithSoundTouch_confined [OF c se sr] by simp
  qed
qed

lemma renderBlocks_confined:
  assumes se: "S < E" and sr: "0 < sampleRate base"
  shows "confined S E base t \<Longrightarrow> renderBlocks ops t calls = (t', reads) \<Longrightarrow>
       (\<forall>(first, count) \<in> set reads.
            cast_int (S * sampleRate base) \<le> first \<and> 0 < count
            \<and> first + count \<le> cast_int (E * sampleRate base)
            \<and> first + count \<le> int (getNumSamples (audioBuffer base)))"
proof (induction calls arbitrary: t reads t')
  case Nil
  then show ?case by simp
next
  case (Cons call calls)
  obtain buffer startSample numSamples where call: "call = (buffer, startSample, numSamples)"
    by (cases call)
  obtain t1 out r1 where p: "processBlock ops t buffer startSample numSamples = (t1, out, r1)"
    by (cases "processBlock ops t buffer startSample numSamples")
  obtain t2 r2 where rest: "renderBlocks ops t1 calls = (t2, r2)"
    by (cases "renderBlocks ops t1 calls")
  have reads: "reads = r1 @ r2"
    using Cons.prems(2) call p rest by simp
  have one: "confined S E base t1"
    and rd1: "\<forall>(first, count) \<in> set r1.
            cast_int (S * sampleRate base) \<le> first \<and> 0 < count
            \<and> first + count \<le> cast_int (E * sampleRate base)
            \<and> first + count \<le> int (getNumSamples (audioBuffer base))"
    using processBlock_confined [OF Cons.prems(1) se sr p] by simp_all
  have rd2: "\<forall>(first, count) \<in> set r2.
            cast_int (S * sampleRate base) \<le> first \<and> 0 < count
            \<and> first + count \<le> cast_int (E * sampleRate base)
            \<and> first + count \<le> int (getNumSamples (audioBuffer base))"
    using Cons.IH [OF one rest] .
  show ?case
    unfolding reads using rd1 rd2 by auto
qed

lemma confined_setLoopRegion:
  assumes "0 \<le> S" "S < E" "E \<le> getDurationInSeconds t"
  shows "confined S E t (setLoopRegion S E t) \<and> 0 < sampleRate t"
proof -
  have "0 < getDurationInSeconds t" using assms by linarith
  then have "0 < sampleRate t"
    by (simp add: getDurationInSeconds_def split: if_splits)
  moreover have "confined S E t (setLoopRegion S E t)"
    using assms by (auto simp: setLoopRegion_def confined_def Let_def)
  ultimately show ?thesis by simp
qed

text \<open>
  C4, as stated, fails at the lower bound. On the 16-frame clip at 8000 Hz the region from
  half a frame (1/16000 s) to the end is valid; the first block then reads the frames
  \<open>0..3\<close>, and frame 0 lies below \<open>start * sampleRate = 0.5\<close>.
\<close>

theorem loop_region_reads_counterexample:
  "0 \<le> (1 / 16000 :: real) \<and> (1 / 16000 :: real) < 1 / 500
   \<and> 1 / 500 \<le> getDurationInSeconds clip16
   \<and> snd (renderBlocks fifoStretcher (setLoopRegion (1 / 16000) (1 / 500) clip16)
            [(\<lparr>channelData = [replicate 4 0], numFrames = 4\<rparr>, 0, 4)]) = [(0, 4)]
   \<and> real_of_int 0 < 1 / 16000 * sampleRate clip16"
  by (simp add: example_defs playback_defs ratio_defs Let_def setLoopRegion_def)

text \<open>
  C4, amended. After \<open>setLoopRegion (start, end)\<close> with \<open>0 \<le> start < end \<le> duration\<close>,
  every source range \<open>[first, first + count)\<close> read by any sequence of \<open>processBlock\<close>
  calls, in direct and in stretched playback, looping or not, is non-empty and lies inside
  \<open>[(int) (start * sampleRate), min ((int) (end * sampleRate), frames))\<close>. So every index
  read is below \<open>end * sampleRate\<close> and above \<open>start * sampleRate - 1\<close>: the lower bound is
  the truncated start index.
\<close>

theorem loop_region_confines_reads:
  assumes "0 \<le> startTime" and "startTime < endTime" and "endTime \<le> getDurationInSeconds t"
    and "renderBlocks ops (setLoopRegion startTime endTime t) calls = (t', reads)"
    and "(first, count) \<in> set reads"
  shows "cast_int (startTime * sampleRate t) \<le> first \<and> 0 < count
       \<and> first + count \<le> cast_int (endTime * sampleRate t)
       \<and> first + count \<le> int (getNumSamples (audioBuffer t))
       \<and> startTime * sampleRate t - 1 < real_of_int first
       \<and> real_of_int (first + count) \<le> endTime * sampleRate t"
proof -
  have c: "confined startTime endTime t (setLoopRegion startTime endTime t)"
    and sr: "0 < sampleRate t"
    using confined_setLoopRegion [OF assms(1-3)] by simp_all
  have main: "cast_int (startTime * sampleRate t) \<le> first \<and> 0 < count
       \<and> first + count \<le> cast_int (endTime * sampleRate t)
       \<and> first + count \<le> int (getNumSamples (audioBuffer t))"
    using renderBlocks_confined [OF assms(2) sr c assms(4)] assms(5) by auto
  have s0: "0 \<le> startTime * sampleRate t" and e0: "0 \<le> endTime * sampleRate t"
    using assms(1,2) sr by simp_all
  have a: "startTime * sampleRate t - 1 < real_of_int (cast_int (startTime * sampleRate t))"
    using s0 by (simp add: cast_int_def)
  have b: "real_of_int (cast_int (endTime * sampleRate t)) \<le> endTime * sampleRate t"
    using e0 by (simp add: cast_int_def)
  have lo: "real_of_int (cast_int (startTime * sampleRate t)) \<le> real_of_int first"
    using main by (simp only: of_int_le_iff)
  have hi: "real_of_int (first + count) \<le> real_of_int (cast_int (endTime * sampleRate t))"
    using main by (simp only: of_int_le_iff)
  have "startTime * sampleRate t - 1 < real_of_int first"
    using a lo by linarith
  moreover have "real_of_int (first + count) \<le> endTime * sampleRate t"
    using b hi by linarith
  ultimately show ?thesis
    using main by blast
qed


theorem loop_region_confines_reads_witness:
  "snd (renderBlocks fifoStretcher (setLoopRegion (1 / 1000) (1 / 500) clip16)
            [(\<lparr>channelData = [replicate 4 0], numFrames = 4\<rparr>, 0, 4),
             (\<lparr>channelData = [replicate 4 0], numFrames = 4\<rparr>, 0, 4),
             (\<lparr>channelData = [replicate 4 0], numFrames = 4\<rparr>, 0, 4)]) = [(8, 4), (12, 4), (8, 4)]
   \<and> cast_int (1 / 1000 * sampleRate clip16) \<le> 12
   \<and> 12 + 4 \<le> cast_int (1 / 500 * sampleRate clip16)
   \<and> (12 + 4 :: int) \<le> int (getNumSamples (audioBuffer clip16))"
proof -
  define calls where "calls = [(\<lparr>channelData = [replicate 4 0], numFrames = 4\<rparr>, 0 :: int, 4 :: int),
             (\<lparr>channelData = [replicate 4 0], numFrames = 4\<rparr>, 0, 4),
             (\<lparr>channelData = [replicate 4 0], numFrames = 4\<rparr>, 0, 4)]"
  define res where "res = renderBlocks fifoStretcher (setLoopRegion (1 / 1000) (1 / 500) clip16) calls"
  have rd: "snd res = [(8, 4), (12, 4), (8, 4)]"
    unfolding res_def calls_def
    by (simp add: example_defs playback_defs ratio_defs Let_def setLoopRegion_def)
  have d: "(1 / 500 :: real) \<le> getDurationInSeconds clip16"
    by (simp add: getDurationInSeconds_def example_defs getNumSamples_def)
  have r: "renderBlocks fifoStretcher (setLoopRegion (1 / 1000) (1 / 500) clip16) calls = (fst res, snd res)"
    by (simp add: res_def)
  have m: "(12, 4) \<in> set (snd res)"
    by (simp add: rd)
  have "cast_int (1 / 1000 * sampleRate clip16) \<le> 12
   \<and> 12 + 4 \<le> cast_int (1 / 500 * sampleRate clip16)
   \<and> (12 + 4 :: int) \<le> int (getNumSamples (audioBuffer clip16))"
    using loop_region_confines_reads [OF _ _ d r m] by simp
  then show ?thesis
    using rd unfolding res_def calls_def by simp
qed



section \<open>The position in stretched playback\<close>

lemma loopEntry_position:
  "loopEntry clear t = Some (cs, t1) \<Longrightarrow>
   loopEntry (\<lambda>st. st) t = Some (cs, t1\<lparr>soundTouch := soundTouch t\<rparr>)"
  unfolding loopEntry_def Let_def by (auto split: if_splits) 

lemma loopEntry_soundTouch:
  "loopEntry (\<lambda>st. st) (t\<lparr>soundTouch := st\<rparr>)
     = map_option (\<lambda>(cs, t1). (cs, t1\<lparr>soundTouch := st\<rparr>)) (loopEntry (\<lambda>st. st) t)"
  unfolding loopEntry_def Let_def by simp

lemma loopEntry_clear_independent:
  assumes "loopEntry clear (t\<lparr>soundTouch := st\<rparr>) = Some (cs, t1)"
  shows "\<exists>t1'. loopEntry (\<lambda>st. st) t = Some (cs, t1') \<and> currentPosition t1' = currentPosition t1"
proof -
  have "loopEntry (\<lambda>st. st) (t\<lparr>soundTouch := st\<rparr>) = Some (cs, t1\<lparr>soundTouch := st\<rparr>)"
    using loopEntry_position [OF assms] by simp
  then obtain p where p: "loopEntry (\<lambda>st. st) t = Some p"
    and q: "(case p of (cs, t1) \<Rightarrow> (cs, t1\<lparr>soundTouch := st\<rparr>)) = (cs, t1\<lparr>soundTouch := st\<rparr>)"
    unfolding loopEntry_soundTouch by (cases "loopEntry (\<lambda>st. st) t") auto
  obtain cs' t1' where pp: "p = (cs', t1')" by (cases p)
  have "cs' = cs" and "t1'\<lparr>soundTouch := st\<rparr> = t1\<lparr>soundTouch := st\<rparr>"
    using q pp by simp_all
  then have "cs' = cs"
    and "currentPosition (t1'\<lparr>soundTouch := st\<rparr>) = currentPosition (t1\<lparr>soundTouch := st\<rparr>)"
    by simp_all
  then show ?thesis using p pp by simp
qed

lemma loopEntry_not_looping:
  "loopEntry clear t = Some (cs, t1) \<Longrightarrow> \<not> looping t \<Longrightarrow> t1 = t"
  unfolding loopEntry_def Let_def by (auto split: if_splits)

text \<open>
  C9, as stated, fails when the block reaches the region end while looping. The looping
  16-frame clip at position 0 with stretch ratio 2 feeds 16 input frames for a block of 8
  and is left at position 0, not at 16/8000.
\<close>

theorem stretched_position_counterexample:
  "looping (clip16\<lparr>stretchRatio := 2\<rparr>)
   \<and> currentPosition (clip16\<lparr>stretchRatio := 2\<rparr>) = 0
   \<and> snd (snd (processBlock fifoStretcher (clip16\<lparr>stretchRatio := 2\<rparr>)
                 \<lparr>channelData = [replicate 8 0], numFrames = 8\<rparr> 0 8)) = [(0, 16)]
   \<and> currentPosition (fst (processBlock fifoStretcher (clip16\<lparr>stretchRatio := 2\<rparr>)
                 \<lparr>channelData = [replicate 8 0], numFrames = 8\<rparr> 0 8)) = 0"
  by (simp add: example_defs playback_defs ratio_defs Let_def)

text \<open>
  C9, amended. A \<open>processBlock\<close> call in stretched playback that feeds input to the
  primitive feeds \<open>n = min (2 * numSamples, loopEndSample - currentSample)\<close> frames from
  the index \<open>currentSample\<close> that the looping block maps the position to, and leaves the
  position at \<open>p + n / sampleRate\<close>, where \<open>p\<close> is the position after that block, or at the
  region start when the track loops and \<open>p + n / sampleRate\<close> reaches the region end. The
  new position is a function of the track and the frame count alone, whatever the primitive
  returns. When the track does not loop, the position advances by exactly \<open>n / sampleRate\<close>.
\<close>

theorem stretched_position_advance:
  assumes stretched: "\<not> \<bar>stretchRatio t - 1\<bar> < 0.02"
    and r: "processBlock ops t buffer startSample numSamples = (t', out, reads)"
    and fed: "reads \<noteq> []"
  shows "\<exists>cs t1 n. loopEntry (\<lambda>st. st) t = Some (cs, t1)
           \<and> n = min (numSamples * 2) (loopEndSampleOf t - cs)
           \<and> 0 < n
           \<and> reads = [(cs, n)]
           \<and> currentPosition t' =
               (if looping t \<and> currentPosition t1 + real_of_int n / sampleRate t \<ge> loopEndOf t
                then loopStartOf t
                else currentPosition t1 + real_of_int n / sampleRate t)
           \<and> (\<not> looping t \<longrightarrow> currentPosition t' = currentPosition t + real_of_int n / sampleRate t)"
proof -
  have w: "processWithSoundTouch ops t buffer startSample numSamples = (t', out, reads)"
    using r fed stretched unfolding processBlock_def by (simp split: if_splits)
  from processWithSoundTouch_cases [OF w] show ?thesis
  proof (elim disjE exE conjE)
    fix st
    assume "reads = []"
    then show ?thesis using fed by simp
  next
    fix cs st
    assume "reads = []"
    then show ?thesis using fed by simp
  next
    fix cs t1 n st st'
    assume le: "loopEntry (st_clear ops) (t\<lparr>soundTouch := st\<rparr>) = Some (cs, t1)"
      and n: "n = min (numSamples * 2) (loopEndSampleOf t - cs)" "0 < n"
      and rd: "reads = [(cs, n)]"
      and t': "t' = t1\<lparr>currentPosition :=
                 if looping t \<and> currentPosition t1 + real_of_int n / sampleRate t \<ge> loopEndOf t
                 then loopStartOf t
                 else currentPosition t1 + real_of_int n / sampleRate t,
               soundTouch := st'\<rparr>"
    obtain t1' where e: "loopEntry (\<lambda>st. st) t = Some (cs, t1')"
      and p: "currentPosition t1' = currentPosition t1"
      using loopEntry_clear_independent [OF le] by blast
    have nl: "\<not> looping t \<Longrightarrow> currentPosition t1' = currentPosition t"
      using loopEntry_not_looping [OF e] by simp
    have pos: "currentPosition t' =
               (if looping t \<and> currentPosition t1' + real_of_int n / sampleRate t \<ge> loopEndOf t
                then loopStartOf t
                else currentPosition t1' + real_of_int n / sampleRate t)"
      unfolding t' p by simp
    have pos2: "\<not> looping t \<longrightarrow> currentPosition t' = currentPosition t + real_of_int n / sampleRate t"
      using pos nl by simp
    show ?thesis
      apply (rule exI [of _ cs], rule exI [of _ t1'], rule exI [of _ n])
      using e n rd pos pos2 by blast
  qed
qed


theorem stretched_position_advance_witness:
  "snd (snd (processBlock fifoStretcher (clip16\<lparr>stretchRatio := 2, looping := False\<rparr>)
               \<lparr>channelData = [replicate 4 0], numFrames = 4\<rparr> 0 4)) = [(0, 8)]
   \<and> currentPosition (fst (processBlock fifoStretcher (clip16\<lparr>stretchRatio := 2, looping := False\<rparr>)
               \<lparr>channelData = [replicate 4 0], numFrames = 4\<rparr> 0 4)) = 8 / 8000"
proof -
  define t where "t = clip16\<lparr>stretchRatio := 2, looping := False\<rparr>"
  define res where "res = processBlock fifoStretcher t \<lparr>channelData = [replicate 4 0], numFrames = 4\<rparr> 0 4"
  have rd: "snd (snd res) = [(0, 8)]"
    unfolding res_def t_def
    by (simp add: example_defs playback_defs ratio_defs Let_def)
  have s: "\<not> \<bar>stretchRatio t - 1\<bar> < 0.02" "\<not> looping t" "currentPosition t = 0" "sampleRate t = 8000"
    by (simp_all add: t_def example_defs)
  have r: "processBlock fifoStretcher t \<lparr>channelData = [replicate 4 0], numFrames = 4\<rparr> 0 4
             = (fst res, fst (snd res), snd (snd res))"
    by (simp add: res_def)
  have fed: "snd (snd res) \<noteq> []"
    by (simp add: rd)
  have "currentPosition (fst res) = 8 / 8000"
    using stretched_position_advance [OF s(1) r fed] s(2,3,4) rd by auto
  then show ?thesis
    using rd unfolding res_def t_def by simp
qed


end
